theory Spec2Isabelle
  imports Main "HOL-Library.Word"
begin

section \<open>The UNIQID ledger contract\<close>

text \<open>
  The contract \<^verbatim>\<open>UNIQID\<close> keeps a counter \<^verbatim>\<open>nextId\<close>, the forward table
  \<^verbatim>\<open>roots\<close> (id to root) and the reverse table \<^verbatim>\<open>rootToId\<close>. Solidity's
  \<^verbatim>\<open>uint256\<close> and \<^verbatim>\<open>bytes32\<close> are 256-bit words; a mapping gives zero at a key
  that was never written. A \<^verbatim>\<open>require\<close> that fails is \<open>Revert\<close> with its message;
  the checked addition of Solidity 0.8 is \<open>Panic 17\<close> (0x11) on overflow.
\<close>

type_synonym bytes32 = "256 word"
type_synonym uint256 = "256 word"
type_synonym address = "160 word"

datatype evm_error = Revert string | Panic nat

record ledger =
  nextId :: uint256
  roots :: "uint256 \<Rightarrow> bytes32"
  rootToId :: "bytes32 \<Rightarrow> uint256"
  events :: "(uint256 \<times> bytes32 \<times> address) list"

text \<open>The state the constructor leaves: \<^verbatim>\<open>nextId = 0\<close>, both mappings empty, no event.\<close>

definition deployed :: ledger where
  "deployed = \<lparr>nextId = 0, roots = (\<lambda>_. 0), rootToId = (\<lambda>_. 0), events = []\<rparr>"

text \<open>
  \<^verbatim>\<open>anchorRoot(bytes32 root)\<close>: the zero root is refused; otherwise the counter is
  incremented, both tables are written at the new id, the event \<^verbatim>\<open>RootAnchored\<close> is
  appended and the new id is returned.
\<close>

definition anchorRoot :: "ledger \<Rightarrow> address \<Rightarrow> bytes32 \<Rightarrow> evm_error + (ledger \<times> uint256)" where
  "anchorRoot st sender root =
     (if root = 0 then Inl (Revert ''root cannot be zero'')
      else if nextId st = - 1 then Inl (Panic 17)
      else
        let n = nextId st + 1;
            st' = st\<lparr>nextId := n,
                      roots := (roots st)(n := root),
                      rootToId := (rootToId st)(root := n),
                      events := events st @ [(n, root, sender)]\<rparr>
        in Inr (st', n))"

text \<open>
  \<^verbatim>\<open>verifyUser(uint256 uniqId, bytes32 leaf, bytes32[] proof)\<close>: the range check on
  the id comes first; only then is the stored root read and handed, with the proof and
  the leaf, to \<^verbatim>\<open>MerkleProof.verify\<close>. That function belongs to the OpenZeppelin library
  that the contract imports, not to the repository: it is the parameter
  \<open>MerkleProof_verify\<close>.
\<close>

definition verifyUser :: "(bytes32 list \<Rightarrow> bytes32 \<Rightarrow> bytes32 \<Rightarrow> bool) \<Rightarrow> ledger \<Rightarrow> uint256 \<Rightarrow> bytes32 \<Rightarrow> bytes32 list \<Rightarrow> evm_error + bool" where
  "verifyUser MerkleProof_verify st uniqId leaf pf =
     (if \<not> (uniqId > 0 \<and> uniqId \<le> nextId st) then Inl (Revert ''invalid uniqId'')
      else Inr (MerkleProof_verify pf (roots st uniqId) leaf))"

text \<open>
  The library function as OpenZeppelin documents it: the running hash starts at the
  leaf, each proof element is combined with it by the commutative pair hash (the
  smaller 32-byte value goes first), and the result is compared with the root. The pair
  hash itself (keccak256 of the 64 bytes) is the parameter \<open>H\<close>. The contract is
  \<open>verifyUser (merkleVerify H)\<close>.
\<close>

definition commutativeHash :: "(bytes32 \<Rightarrow> bytes32 \<Rightarrow> bytes32) \<Rightarrow> bytes32 \<Rightarrow> bytes32 \<Rightarrow> bytes32" where
  "commutativeHash H a b = (if a < b then H a b else H b a)"

fun processProof :: "(bytes32 \<Rightarrow> bytes32 \<Rightarrow> bytes32) \<Rightarrow> bytes32 list \<Rightarrow> bytes32 \<Rightarrow> bytes32" where
  "processProof H [] computedHash = computedHash"
| "processProof H (p # ps) computedHash = processProof H ps (commutativeHash H computedHash p)"

definition merkleVerify :: "(bytes32 \<Rightarrow> bytes32 \<Rightarrow> bytes32) \<Rightarrow> bytes32 list \<Rightarrow> bytes32 \<Rightarrow> bytes32 \<Rightarrow> bool" where
  "merkleVerify H pf root leaf = (processProof H pf leaf = root)"

definition getRoot :: "ledger \<Rightarrow> uint256 \<Rightarrow> bytes32" where
  "getRoot st uniqId = roots st uniqId"

text \<open>
  A sequence of \<^verbatim>\<open>anchorRoot\<close> transactions, each with its sender and root, run one
  after the other; the first failing one stops the run. The result is the final state
  and the ids returned, in call order.
\<close>

fun anchorRoots :: "ledger \<Rightarrow> (address \<times> bytes32) list \<Rightarrow> evm_error + (ledger \<times> uint256 list)" where
  "anchorRoots st [] = Inr (st, [])"
| "anchorRoots st (c # cs) =
     (case anchorRoot st (fst c) (snd c) of
        Inl e \<Rightarrow> Inl e
      | Inr (st', i) \<Rightarrow>
          (case anchorRoots st' cs of
             Inl e \<Rightarrow> Inl e
           | Inr (st'', js) \<Rightarrow> Inr (st'', i # js)))"

text \<open>
  The tree convention the specification describes for a multi-leaf tree (its sections
  4.2 and 4.5): walking from a leaf at position \<open>idx\<close> to the root, the node with the
  lower tree index is the left operand of the pair hash. This definition follows the
  specification's words, not the code: it is what the ledger's \<open>processProof\<close> is
  compared with.
\<close>

fun spec_foldProof :: "(bytes32 \<Rightarrow> bytes32 \<Rightarrow> bytes32) \<Rightarrow> nat \<Rightarrow> bytes32 \<Rightarrow> bytes32 list \<Rightarrow> bytes32" where
  "spec_foldProof H idx node [] = node"
| "spec_foldProof H idx node (s # ss) =
     spec_foldProof H (idx div 2) (if even idx then H node s else H s node) ss"

section \<open>JavaScript values and strings\<close>

text \<open>
  The values the handlers read from a JSON body: \<^verbatim>\<open>undefined\<close> (a property that is
  absent), \<^verbatim>\<open>null\<close>, strings and arrays. Numbers, booleans and nested objects as
  field values are outside the model. A \<open>char\<close> stands for one UTF-16 code unit below
  256, so \<open>length\<close> is JavaScript's \<^verbatim>\<open>.length\<close> on such text. Two string literals of
  the handlers hold a character above that range; each is written with the three UTF-8
  bytes of that character, and both strings are only ever sent in a response, never
  measured or compared. An object is a finite map from property names to values.
\<close>

datatype jval = JUndefined | JNull | JStr string | JArr "jval list"

type_synonym jsobject = "string \<Rightarrow> jval option"

definition getProp :: "jsobject \<Rightarrow> string \<Rightarrow> jval" where
  "getProp obj k = (case obj k of None \<Rightarrow> JUndefined | Some v \<Rightarrow> v)"

fun truthy :: "jval \<Rightarrow> bool" where
  "truthy JUndefined = False"
| "truthy JNull = False"
| "truthy (JStr s) = (s \<noteq> [])"
| "truthy (JArr xs) = True"

text \<open>\<^verbatim>\<open>Array.prototype.join\<close> on strings.\<close>

fun join :: "string \<Rightarrow> string list \<Rightarrow> string" where
  "join sep [] = []"
| "join sep [x] = x"
| "join sep (x # y # ys) = x @ sep @ join sep (y # ys)"

text \<open>\<^verbatim>\<open>String(v)\<close>: an array is its elements joined by commas, with \<^verbatim>\<open>null\<close> and
  \<^verbatim>\<open>undefined\<close> elements empty.\<close>

fun jsString :: "jval \<Rightarrow> string" where
  "jsString JUndefined = ''undefined''"
| "jsString JNull = ''null''"
| "jsString (JStr s) = s"
| "jsString (JArr xs) =
     join '','' (map (\<lambda>x. case x of JUndefined \<Rightarrow> [] | JNull \<Rightarrow> [] | _ \<Rightarrow> jsString x) xs)"

text \<open>\<^verbatim>\<open>String(v || "")\<close>.\<close>

definition strOrEmpty :: "jval \<Rightarrow> string" where
  "strOrEmpty v = (if truthy v then jsString v else [])"

text \<open>The \<^verbatim>\<open>.length\<close> of a string or an array (the handlers read it of truthy values only).\<close>

fun jsLength :: "jval \<Rightarrow> nat" where
  "jsLength (JStr s) = length s"
| "jsLength (JArr xs) = length xs"
| "jsLength v = 0"

definition optStr :: "string option \<Rightarrow> jval" where
  "optStr v = (case v of None \<Rightarrow> JNull | Some s \<Rightarrow> JStr s)"

definition lowerChar :: "char \<Rightarrow> char" where
  "lowerChar c =
     (let n = of_char c :: nat
      in if (65 \<le> n \<and> n \<le> 90) \<or> (192 \<le> n \<and> n \<le> 222 \<and> n \<noteq> 215)
         then char_of (n + 32) else c)"

definition toLowerCase :: "string \<Rightarrow> string" where
  "toLowerCase s = map lowerChar s"

definition isWhiteSpace :: "char \<Rightarrow> bool" where
  "isWhiteSpace c = (of_char c \<in> {9, 10, 11, 12, 13, 32, 160 :: nat})"

definition trim :: "string \<Rightarrow> string" where
  "trim s = rev (dropWhile isWhiteSpace (rev (dropWhile isWhiteSpace s)))"

definition startsWith :: "string \<Rightarrow> string \<Rightarrow> bool" where
  "startsWith s p = (take (length p) s = p)"

definition padStart :: "string \<Rightarrow> nat \<Rightarrow> char \<Rightarrow> string" where
  "padStart s n c = replicate (n - length s) c @ s"

definition isDigit :: "char \<Rightarrow> bool" where
  "isDigit c = (48 \<le> (of_char c :: nat) \<and> (of_char c :: nat) \<le> 57)"

definition isUpper :: "char \<Rightarrow> bool" where
  "isUpper c = (65 \<le> (of_char c :: nat) \<and> (of_char c :: nat) \<le> 90)"

definition isLower :: "char \<Rightarrow> bool" where
  "isLower c = (97 \<le> (of_char c :: nat) \<and> (of_char c :: nat) \<le> 122)"

definition isSpecial :: "char \<Rightarrow> bool" where
  "isSpecial c = (c \<in> set ''!@#$%^&*'')"

subsection \<open>Big integers as text\<close>

definition digitChar :: "nat \<Rightarrow> char" where
  "digitChar d = ''0123456789abcdef'' ! (d mod 16)"

text \<open>\<^verbatim>\<open>n.toString(16)\<close> and \<^verbatim>\<open>n.toString(10)\<close> of a non-negative big integer.\<close>

fun toHex :: "nat \<Rightarrow> string" where
  "toHex n = (if n < 16 then [digitChar n] else toHex (n div 16) @ [digitChar (n mod 16)])"

fun toDec :: "nat \<Rightarrow> string" where
  "toDec n = (if n < 10 then [digitChar n] else toDec (n div 10) @ [digitChar (n mod 10)])"

declare toHex.simps [simp del]
declare toDec.simps [simp del]

definition bigIntToString :: "int \<Rightarrow> string" where
  "bigIntToString n = (if n < 0 then CHR ''-'' # toDec (nat (- n)) else toDec (nat n))"

definition digitVal :: "char \<Rightarrow> nat option" where
  "digitVal c =
     (let n = of_char c :: nat
      in if 48 \<le> n \<and> n \<le> 57 then Some (n - 48)
         else if 97 \<le> n \<and> n \<le> 102 then Some (n - 87)
         else if 65 \<le> n \<and> n \<le> 70 then Some (n - 55)
         else None)"

fun parseDigits :: "nat \<Rightarrow> string \<Rightarrow> nat \<Rightarrow> nat option" where
  "parseDigits b [] acc = Some acc"
| "parseDigits b (c # cs) acc =
     (case digitVal c of
        None \<Rightarrow> None
      | Some d \<Rightarrow> if d < b then parseDigits b cs (acc * b + d) else None)"

definition parseNonEmpty :: "nat \<Rightarrow> string \<Rightarrow> nat option" where
  "parseNonEmpty b ds = (if ds = [] then None else parseDigits b ds 0)"

text \<open>
  \<^verbatim>\<open>BigInt(string)\<close>: white space is trimmed; the empty string is zero; a prefix
  \<^verbatim>\<open>0x\<close>, \<^verbatim>\<open>0o\<close> or \<^verbatim>\<open>0b\<close> (either case) selects the base and allows no sign;
  otherwise the text is a decimal integer with an optional sign. \<open>None\<close> is the
  \<^verbatim>\<open>SyntaxError\<close>.
\<close>

definition BigInt :: "string \<Rightarrow> int option" where
  "BigInt str =
     (let t = trim str
      in if t = [] then Some 0
         else if startsWith t ''0x'' \<or> startsWith t ''0X'' then map_option int (parseNonEmpty 16 (drop 2 t))
         else if startsWith t ''0o'' \<or> startsWith t ''0O'' then map_option int (parseNonEmpty 8 (drop 2 t))
         else if startsWith t ''0b'' \<or> startsWith t ''0B'' then map_option int (parseNonEmpty 2 (drop 2 t))
         else if startsWith t ''-'' then map_option (\<lambda>n. - int n) (parseNonEmpty 10 (drop 1 t))
         else if startsWith t ''+'' then map_option int (parseNonEmpty 10 (drop 1 t))
         else map_option int (parseNonEmpty 10 t))"

text \<open>
  \<^verbatim>\<open>Number(digits)\<close> for a string of decimal digits. Below \<open>2^53\<close> the double is the
  integer itself; from there on it is the nearest double (or infinity), of which the
  model keeps only the integer it was read from.
\<close>

datatype jsnumber = SafeInteger nat | LargeDouble nat

definition decimalValue :: "nat \<Rightarrow> string \<Rightarrow> nat" where
  "decimalValue a ds = foldl (\<lambda>acc c. acc * 10 + (of_char c - 48)) a ds"

definition Number :: "string \<Rightarrow> jsnumber" where
  "Number ds =
     (let n = decimalValue 0 ds
      in if int n < 9007199254740992 then SafeInteger n else LargeDouble n)"

text \<open>\<^verbatim>\<open>buf.toString('hex')\<close>: two lower-case digits for each byte.\<close>

definition bytesToHex :: "8 word list \<Rightarrow> string" where
  "bytesToHex bs = concat (map (\<lambda>b. [digitChar (unat b div 16), digitChar (unat b mod 16)]) bs)"

section \<open>merkle.js: the canonical payload\<close>

text \<open>
  \<^verbatim>\<open>buildPayloadString({ uniq_id, email_hash, parahash, salt, timestamp, root = "" })\<close>
  reads six properties of its argument by name. A property that the argument has but
  the pattern does not name is not read.
\<close>

definition buildPayloadString :: "jsobject \<Rightarrow> string" where
  "buildPayloadString obj =
     (let root = (case getProp obj ''root'' of JUndefined \<Rightarrow> JStr [] | v \<Rightarrow> v);
          parts = [strOrEmpty (getProp obj ''uniq_id''),
                   toLowerCase (strOrEmpty (getProp obj ''email_hash'')),
                   toLowerCase (strOrEmpty (getProp obj ''parahash'')),
                   toLowerCase (strOrEmpty (getProp obj ''salt'')),
                   strOrEmpty (getProp obj ''timestamp'')]
      in join ''|'' (if truthy root then parts @ [toLowerCase (strOrEmpty root)] else parts))"

section \<open>handlers.js\<close>

subsection \<open>The server's configuration and its collaborators\<close>

text \<open>
  What the handlers take from outside the repository is a field of the record
  \<open>server\<close>: the libraries (jsonwebtoken, validator, keccak256, circomlibjs' Poseidon,
  ethers), the random salt and the clock, the environment variables, and the outcome of
  each call to the chain. A library call that throws is \<open>None\<close>.
\<close>

record walletT =
  address :: string
  signMessage :: "string \<Rightarrow> string option"

text \<open>A receipt's logs are kept as what \<^verbatim>\<open>contract.interface.parseLog\<close> makes of each:
  it throws, returns \<^verbatim>\<open>null\<close>, or returns an event with its name and, when there is
  one, its first argument.\<close>

datatype parsedLog = ParseThrows | ParseNull | Parsed string "nat option"

record receipt =
  transactionHash :: "string option"
  logs :: "parsedLog list option"

datatype waitOutcome = WaitThrows | WaitReturns "receipt option"

record txResponse =
  hash :: "string option"
  wait :: "waitOutcome option"

datatype anchorOutcome = AnchorThrows | AnchorReturns "txResponse option"

record server =
  jwt_verify :: "jval \<Rightarrow> jval option"
  jwt_sign :: "jval \<Rightarrow> jsnumber \<Rightarrow> string"
  isEmail :: "string \<Rightarrow> bool"
  keccak256 :: "string \<Rightarrow> bytes32"
  poseidon :: "int list \<Rightarrow> nat option"
  randomBytes16 :: "8 word list"
  toISOString :: string
  SEP_RPC :: bool
  CONTRACT_ADDR :: bool
  DEPLOYER_PRIVATE_KEY :: "walletT option"
  contract_anchorRoot :: "string option \<Rightarrow> anchorOutcome"
  contract_rootToId :: "string option \<Rightarrow> nat option"
  verifyMessage :: "string \<Rightarrow> jval \<Rightarrow> string option"
  readContract_verifyUser :: "jsnumber \<Rightarrow> jval \<Rightarrow> jval list \<Rightarrow> bool option"

text \<open>
  \<open>jwt_verify env token\<close> is \<^verbatim>\<open>jwt.verify(token, JWT_SECRET)\<close>: \<open>None\<close> when it
  throws, otherwise the \<^verbatim>\<open>email\<close> property of the payload. The provider exists when
  \<^verbatim>\<open>SEP_RPC\<close> is set, the wallet when the private key and the provider are, the
  contract when the wallet and \<^verbatim>\<open>CONTRACT_ADDR\<close> are.
\<close>

definition provider :: "server \<Rightarrow> bool" where
  "provider env = SEP_RPC env"

definition wallet :: "server \<Rightarrow> walletT option" where
  "wallet env = (if provider env then DEPLOYER_PRIVATE_KEY env else None)"

definition signerAddress :: "server \<Rightarrow> string option" where
  "signerAddress env = map_option address (wallet env)"

definition contract :: "server \<Rightarrow> bool" where
  "contract env = (wallet env \<noteq> None \<and> CONTRACT_ADDR env)"

subsection \<open>Hashing helpers\<close>

text \<open>\<^verbatim>\<open>poseidonHashHexFromUtf8\<close>: keccak256 of the text, read as a big integer, then
  Poseidon of that one element, printed in hex after \<^verbatim>\<open>0x\<close>.\<close>

definition poseidonHashHexFromUtf8 :: "server \<Rightarrow> jval \<Rightarrow> string option" where
  "poseidonHashHexFromUtf8 env inputString =
     (let s = strOrEmpty inputString;
          big = uint (keccak256 env s)
      in case poseidon env [big] of
           None \<Rightarrow> None
         | Some out \<Rightarrow> Some (''0x'' @ toHex out))"

definition to0xPadded32 :: "string \<Rightarrow> string option" where
  "to0xPadded32 hexStr =
     (if hexStr = [] then None
      else
        let s = (if startsWith hexStr ''0x'' then drop 2 hexStr else hexStr);
            s = (if length s > 64 then drop (length s - 64) s else s);
            s = padStart s 64 CHR ''0''
        in Some (''0x'' @ toLowerCase s))"

text \<open>\<^verbatim>\<open>hexToDecString\<close>: \<^verbatim>\<open>null\<close> for the empty string; \<open>None\<close> when \<^verbatim>\<open>BigInt\<close> throws.\<close>

definition hexToDecString :: "string \<Rightarrow> string option option" where
  "hexToDecString hexStr =
     (if hexStr = [] then Some None
      else case BigInt hexStr of
             None \<Rightarrow> None
           | Some n \<Rightarrow> Some (Some (bigIntToString n)))"

definition poseidonHashHexFromFieldHex :: "server \<Rightarrow> string \<Rightarrow> string \<Rightarrow> string option" where
  "poseidonHashHexFromFieldHex env hexA hexB =
     (let aHex = (if startsWith hexA ''0x'' then hexA else ''0x'' @ hexA);
          bHex = (if startsWith hexB ''0x'' then hexB else ''0x'' @ hexB)
      in case BigInt aHex of
           None \<Rightarrow> None
         | Some aBig \<Rightarrow>
             (case BigInt bHex of
                None \<Rightarrow> None
              | Some bBig \<Rightarrow>
                  (case poseidon env [aBig, bBig] of
                     None \<Rightarrow> None
                   | Some out \<Rightarrow> Some (toLowerCase (''0x'' @ padStart (toHex out) 64 CHR ''0'')))))"

definition normalizeEmail :: "jval \<Rightarrow> string" where
  "normalizeEmail e = toLowerCase (trim (strOrEmpty e))"

subsection \<open>completeRegistrationHandler\<close>

text \<open>A response is the HTTP status with the error text, or the success body: message,
  \<^verbatim>\<open>anchorTxHash\<close> and the package.\<close>

datatype regResponse = RegError nat string | RegOk string "string option" jsobject

text \<open>
  The passphrase check (lines 189 to 195): every test is made and every failing one
  appends its label. The first label starts with the character U+2265, written here by
  its three UTF-8 bytes.
\<close>

definition strengthErrors :: "jval \<Rightarrow> string list" where
  "strengthErrors paraphrase =
     (if jsLength paraphrase < 8 then [[CHR 0xE2, CHR 0x89, CHR 0xA5] @ ''8 chars''] else []) @
     (if list_ex isUpper (jsString paraphrase) then [] else [''uppercase'']) @
     (if list_ex isLower (jsString paraphrase) then [] else [''lowercase'']) @
     (if list_ex isDigit (jsString paraphrase) then [] else [''digit'']) @
     (if list_ex isSpecial (jsString paraphrase) then [] else [''special''])"

text \<open>Lines 258 to 274: the object literal of the package, its \<^verbatim>\<open>uniq_id\<close> still
  \<^verbatim>\<open>null\<close>.\<close>

definition packageObject :: "string \<Rightarrow> string option \<Rightarrow> string \<Rightarrow> string option \<Rightarrow> string \<Rightarrow> string \<Rightarrow> string \<Rightarrow> string option \<Rightarrow> string \<Rightarrow> string option \<Rightarrow> jval list \<Rightarrow> string option \<Rightarrow> string option \<Rightarrow> jsobject" where
  "packageObject emailHashHex emailHashDec paraHashHex paraHashDec saltHex timestampIso
       rootHex rootDec leafHex leafDec proofHexArr signerAddr signature =
     [''uniq_id'' \<mapsto> JNull,
      ''email_hash'' \<mapsto> JStr emailHashHex,
      ''email_hash_dec'' \<mapsto> optStr emailHashDec,
      ''parahash'' \<mapsto> JStr paraHashHex,
      ''parahash_dec'' \<mapsto> optStr paraHashDec,
      ''salt'' \<mapsto> JStr saltHex,
      ''timestamp'' \<mapsto> JStr timestampIso,
      ''root'' \<mapsto> JStr rootHex,
      ''root_dec'' \<mapsto> optStr rootDec,
      ''leaf'' \<mapsto> JStr leafHex,
      ''leaf_dec'' \<mapsto> optStr leafDec,
      ''proof'' \<mapsto> JArr proofHexArr,
      ''signer'' \<mapsto> (case signerAddr of
                       None \<Rightarrow> JNull
                     | Some a \<Rightarrow> if a = [] then JNull else JStr a),
      ''signature'' \<mapsto> optStr signature]"

text \<open>
  Lines 238 to 274: the canonical payload, its signature when there is a wallet, the
  decimal mirrors and the package. \<open>None\<close> is an exception, which the handler's outer
  \<^verbatim>\<open>catch\<close> turns into the response 500.
\<close>

definition minimalPackage :: "server \<Rightarrow> string \<Rightarrow> string \<Rightarrow> string \<Rightarrow> string \<Rightarrow> string \<Rightarrow> string \<Rightarrow> jval list \<Rightarrow> jsobject option" where
  "minimalPackage env emailHashHex paraHashHex saltHex timestampIso leafHex rootHex proofHexArr =
     (let canonical = buildPayloadString
            [''leaf'' \<mapsto> JStr leafHex, ''root'' \<mapsto> JStr rootHex,
             ''email_hash'' \<mapsto> JStr emailHashHex, ''parahash'' \<mapsto> JStr paraHashHex,
             ''salt'' \<mapsto> JStr saltHex, ''timestamp'' \<mapsto> JStr timestampIso]
      in case (case wallet env of
                 None \<Rightarrow> Some None
               | Some w \<Rightarrow> map_option Some (signMessage w canonical)) of
           None \<Rightarrow> None
         | Some signature \<Rightarrow>
             (case (hexToDecString emailHashHex, hexToDecString paraHashHex,
                    hexToDecString leafHex, hexToDecString rootHex) of
                (Some emailHashDec, Some paraHashDec, Some leafDec, Some rootDec) \<Rightarrow>
                  Some (packageObject emailHashHex emailHashDec paraHashHex paraHashDec saltHex
                          timestampIso rootHex rootDec leafHex leafDec proofHexArr
                          (signerAddress env) signature)
              | _ \<Rightarrow> None))"

text \<open>Lines 317 to 330: the first parsed log named \<^verbatim>\<open>RootAnchored\<close> whose first
  argument can be read gives the id; a log that fails is skipped.\<close>

fun firstRootAnchored :: "parsedLog list \<Rightarrow> string option" where
  "firstRootAnchored [] = None"
| "firstRootAnchored (ParseThrows # ls) = firstRootAnchored ls"
| "firstRootAnchored (ParseNull # ls) = firstRootAnchored ls"
| "firstRootAnchored (Parsed name arg0 # ls) =
     (if name = ''RootAnchored''
      then (case arg0 of None \<Rightarrow> firstRootAnchored ls | Some n \<Rightarrow> Some (toDec n))
      else firstRootAnchored ls)"

text \<open>
  Lines 307 to 331: the id is read with \<^verbatim>\<open>rootToId\<close>; zero leaves it unset; only
  when that call throws are the receipt's logs searched (and with no receipt that
  search throws in turn and is given up).
\<close>

definition assignedNumId :: "server \<Rightarrow> string option \<Rightarrow> receipt option \<Rightarrow> string option" where
  "assignedNumId env paddedRootHex rcpt =
     (case contract_rootToId env paddedRootHex of
        Some bn \<Rightarrow>
          if bn \<noteq> 0 then (let s = toDec bn in if s \<noteq> ''0'' then Some s else None) else None
      | None \<Rightarrow>
          (case rcpt of
             None \<Rightarrow> None
           | Some r \<Rightarrow> firstRootAnchored (case logs r of None \<Rightarrow> [] | Some ls \<Rightarrow> ls)))"

text \<open>Line 333: the display form of the id.\<close>

definition uniqAssignedString :: "string option \<Rightarrow> string option" where
  "uniqAssignedString numId =
     (case numId of
        None \<Rightarrow> None
      | Some s \<Rightarrow> if s = [] then None else Some (''UNIQ-'' @ padStart s 6 CHR ''0''))"

text \<open>Lines 295 to 297: the receipt is awaited when the response has a \<^verbatim>\<open>wait\<close>
  function; \<open>None\<close> is an exception thrown while waiting.\<close>

definition awaitReceipt :: "txResponse option \<Rightarrow> receipt option option" where
  "awaitReceipt txResp =
     (case txResp of
        None \<Rightarrow> Some None
      | Some t \<Rightarrow>
          (case wait t of
             None \<Rightarrow> Some None
           | Some WaitThrows \<Rightarrow> None
           | Some (WaitReturns r) \<Rightarrow> Some r))"

text \<open>Line 305: the transaction hash shown to the user.\<close>

definition anchorTxHashOf :: "receipt option \<Rightarrow> txResponse option \<Rightarrow> string option" where
  "anchorTxHashOf rcpt txResp =
     (case rcpt of
        Some r \<Rightarrow> transactionHash r
      | None \<Rightarrow>
          (case txResp of
             None \<Rightarrow> None
           | Some t \<Rightarrow>
               (case hash t of
                  None \<Rightarrow> None
                | Some h \<Rightarrow> if h = [] then None else Some h)))"

text \<open>Lines 337 to 339: the message. It starts, in the first case, with the character
  U+2705, written here by its three UTF-8 bytes.\<close>

definition anchorMessage :: "receipt option \<Rightarrow> string option \<Rightarrow> string" where
  "anchorMessage rcpt anchorTxHash =
     (case rcpt of
        Some r \<Rightarrow>
          [CHR 0xE2, CHR 0x9C, CHR 0x85] @ '' Root successfully anchored on-chain. Tx Hash: '' @
          (case anchorTxHash of None \<Rightarrow> ''undefined'' | Some h \<Rightarrow> h)
      | None \<Rightarrow>
          ''Root was submitted (tx created). Tx Hash: '' @
          (case anchorTxHash of None \<Rightarrow> ''N/A'' | Some h \<Rightarrow> if h = [] then ''N/A'' else h))"

text \<open>Line 334: the id, when there is one, is written into the package.\<close>

definition withUniqId :: "jsobject \<Rightarrow> string option \<Rightarrow> jsobject" where
  "withUniqId pkg uniq = (case uniq of None \<Rightarrow> pkg | Some u \<Rightarrow> pkg(''uniq_id'' \<mapsto> JStr u))"

text \<open>
  Lines 276 to 350: without a contract the package is returned as it is; otherwise the
  root is anchored, and a failure of that call (or of waiting for its receipt) ends the
  request with status 500 and no package.
\<close>

definition anchorPackage :: "server \<Rightarrow> string \<Rightarrow> jsobject \<Rightarrow> regResponse" where
  "anchorPackage env rootHex pkg =
     (if \<not> (contract env \<and> wallet env \<noteq> None)
      then RegOk ''Contract/wallet not configured; root not anchored. Set SEP_RPC, CONTRACT_ADDR, DEPLOYER_PRIVATE_KEY in .env for on-chain anchoring.''
             None pkg
      else
        let paddedRootHex = to0xPadded32 rootHex
        in case contract_anchorRoot env paddedRootHex of
             AnchorThrows \<Rightarrow> RegError 500 ''Failed to anchor root on-chain.''
           | AnchorReturns txResp \<Rightarrow>
               (case awaitReceipt txResp of
                  None \<Rightarrow> RegError 500 ''Failed to anchor root on-chain.''
                | Some rcpt \<Rightarrow>
                    let anchorTxHash = anchorTxHashOf rcpt txResp;
                        uniq = uniqAssignedString (assignedNumId env paddedRootHex rcpt)
                    in RegOk (anchorMessage rcpt anchorTxHash) anchorTxHash (withUniqId pkg uniq)))"

text \<open>
  The handler: the two body fields, the token and the email it carries, the
  passphrase policy, the salt and the time stamp, the two field hashes, the leaf (the
  root is the leaf and the proof is empty), then the package and the anchoring.
\<close>

definition completeRegistrationHandler :: "server \<Rightarrow> jval \<Rightarrow> jval \<Rightarrow> regResponse" where
  "completeRegistrationHandler env token paraphrase =
     (if \<not> truthy token then RegError 400 ''Missing token.''
      else if \<not> truthy paraphrase then RegError 400 ''Missing paraphrase.''
      else case jwt_verify env token of
        None \<Rightarrow> RegError 400 ''Invalid or expired token.''
      | Some payload_email \<Rightarrow>
          let email = normalizeEmail (if truthy payload_email then payload_email else JStr [])
          in if \<not> isEmail env email then RegError 400 ''Invalid email in token.''
             else
               let errs = strengthErrors paraphrase
               in if errs \<noteq> [] then RegError 400 (''Paraphrase needs: '' @ join '', '' errs)
                  else
                    let saltHex = ''0x'' @ bytesToHex (randomBytes16 env);
                        timestampIso = toISOString env
                    in (case poseidonHashHexFromUtf8 env (JStr email) of
                         None \<Rightarrow> RegError 500 ''Hashing failed.''
                       | Some emailHashHex \<Rightarrow>
                           (case poseidonHashHexFromUtf8 env paraphrase of
                              None \<Rightarrow> RegError 500 ''Hashing failed.''
                            | Some paraHashHex \<Rightarrow>
                                (case poseidonHashHexFromFieldHex env emailHashHex paraHashHex of
                                   None \<Rightarrow> RegError 500 ''Failed to compute leaf/root.''
                                 | Some combined \<Rightarrow>
                                     let leafHex = combined;
                                         rootHex = leafHex;
                                         proofHexArr = []
                                     in (case minimalPackage env emailHashHex paraHashHex saltHex
                                               timestampIso leafHex rootHex proofHexArr of
                                          None \<Rightarrow> RegError 500 ''Server error''
                                        | Some pkg \<Rightarrow> anchorPackage env rootHex pkg)))))"

subsection \<open>loginHandler\<close>

datatype loginResponse = LoginError nat string | LoginOk string jval jsnumber string

definition required :: "string list" where
  "required = [''uniq_id'', ''email_hash'', ''parahash'', ''salt'', ''timestamp'',
               ''root'', ''leaf'', ''proof'', ''signer'', ''signature'']"

text \<open>\<^verbatim>\<open>String(pkg.uniq_id || '').match(/^UNIQ-(\d+)$/)\<close>: the digits, when the text
  matches.\<close>

definition matchUniqId :: "string \<Rightarrow> string option" where
  "matchUniqId s =
     (if startsWith s ''UNIQ-'' \<and> drop 5 s \<noteq> [] \<and> list_all isDigit (drop 5 s)
      then Some (drop 5 s) else None)"

text \<open>Lines 376 to 384: the canonical string is rebuilt from six fields of the package.\<close>

definition loginCanonical :: "jsobject \<Rightarrow> string" where
  "loginCanonical pkg = buildPayloadString
     [''leaf'' \<mapsto> getProp pkg ''leaf'', ''root'' \<mapsto> getProp pkg ''root'',
      ''email_hash'' \<mapsto> getProp pkg ''email_hash'', ''parahash'' \<mapsto> getProp pkg ''parahash'',
      ''salt'' \<mapsto> getProp pkg ''salt'', ''timestamp'' \<mapsto> getProp pkg ''timestamp'']"

text \<open>Lines 386 to 396: the signer recovered from the canonical string and the signature
  must be the package's declared signer. \<open>None\<close> means the check passed.\<close>

definition signatureCheck :: "server \<Rightarrow> jsobject \<Rightarrow> loginResponse option" where
  "signatureCheck env pkg =
     (case verifyMessage env (loginCanonical pkg) (getProp pkg ''signature'') of
        None \<Rightarrow> Some (LoginError 400 ''Invalid signature format.'')
      | Some recovered \<Rightarrow>
          if toLowerCase recovered \<noteq> toLowerCase (jsString (getProp pkg ''signer''))
          then Some (LoginError 400 ''Signature not issued by expected signer.'')
          else None)"

text \<open>
  Lines 376 to 425, for a package that has every required field: the signature check,
  the id, the call to the ledger, the session token.
\<close>

definition loginVerify :: "server \<Rightarrow> jsobject \<Rightarrow> loginResponse" where
  "loginVerify env pkg =
     (case signatureCheck env pkg of
        Some rejected \<Rightarrow> rejected
      | None \<Rightarrow>
          (case matchUniqId (strOrEmpty (getProp pkg ''uniq_id'')) of
             None \<Rightarrow> LoginError 400 ''Invalid or missing uniq_id (anchored id required for on-chain verification).''
           | Some digits \<Rightarrow>
               let numericId = Number digits
               in if numericId = SafeInteger 0
                  then LoginError 400 ''Invalid numeric uniq id in package.''
                  else if \<not> (provider env \<and> CONTRACT_ADDR env)
                  then LoginError 500 ''Contract/provider not configured on server.''
                  else
                    let pf = (case getProp pkg ''proof'' of JArr xs \<Rightarrow> xs | _ \<Rightarrow> [])
                    in (case readContract_verifyUser env numericId (getProp pkg ''leaf'') pf of
                         None \<Rightarrow> LoginError 500 ''On-chain verification failed.''
                       | Some ok \<Rightarrow>
                           if \<not> ok then LoginError 400 ''Proof not valid against on-chain root.''
                           else LoginOk ''Login verified on-chain.'' (getProp pkg ''uniq_id'') numericId
                                  (jwt_sign env (getProp pkg ''uniq_id'') numericId))))"

definition loginHandler :: "server \<Rightarrow> jsobject option \<Rightarrow> loginResponse" where
  "loginHandler env body_package =
     (case body_package of
        None \<Rightarrow> LoginError 400 ''Missing package in request body.''
      | Some pkg \<Rightarrow>
          (case find (\<lambda>f. getProp pkg f = JUndefined \<or> getProp pkg f = JNull) required of
             Some f \<Rightarrow> LoginError 400 (''Missing package field: '' @ f)
           | None \<Rightarrow> loginVerify env pkg))"

subsection \<open>The read-only call as the ledger answers it\<close>

text \<open>
  \<^verbatim>\<open>readContract.verifyUser(numericId, leaf, proof)\<close> when the contract behind it is in
  state \<open>st\<close> and its library verifier is \<open>V\<close>: ethers encodes the arguments (a number must be a safe integer, a
  \<^verbatim>\<open>bytes32\<close> must be \<^verbatim>\<open>0x\<close> and 64 hex digits) and throws when it cannot; a revert of
  the contract throws as well.
\<close>

definition abiBytes32 :: "jval \<Rightarrow> bytes32 option" where
  "abiBytes32 v =
     (case v of
        JStr s \<Rightarrow>
          if startsWith s ''0x'' \<and> length s = 66
          then map_option of_nat (parseDigits 16 (drop 2 s) 0)
          else None
      | _ \<Rightarrow> None)"

fun abiBytes32Array :: "jval list \<Rightarrow> bytes32 list option" where
  "abiBytes32Array [] = Some []"
| "abiBytes32Array (v # vs) =
     (case abiBytes32 v of
        None \<Rightarrow> None
      | Some b \<Rightarrow> map_option ((#) b) (abiBytes32Array vs))"

definition ledger_verifyUser :: "(bytes32 list \<Rightarrow> bytes32 \<Rightarrow> bytes32 \<Rightarrow> bool) \<Rightarrow> ledger \<Rightarrow> jsnumber \<Rightarrow> jval \<Rightarrow> jval list \<Rightarrow> bool option" where
  "ledger_verifyUser V st numericId leaf pf =
     (case numericId of
        LargeDouble n \<Rightarrow> None
      | SafeInteger n \<Rightarrow>
          (case abiBytes32 leaf of
             None \<Rightarrow> None
           | Some lf \<Rightarrow>
               (case abiBytes32Array pf of
                  None \<Rightarrow> None
                | Some pf \<Rightarrow>
                    (case verifyUser V st (of_nat n) lf pf of
                       Inl e \<Rightarrow> None
                     | Inr b \<Rightarrow> Some b))))"

section \<open>A configuration to run the handlers on\<close>

text \<open>
  A concrete server, so that the handlers can be evaluated: stand-ins for the
  libraries (a token that carries an email, a signature scheme that the verifier
  inverts, simple hash functions), and as parameters the ledger \<open>st\<close> behind the
  contract's read calls, the salt, the time, the wallet behind the private key and the
  outcome of the anchoring call. \<open>exampleLedger r\<close> is the deployed ledger after one
  \<^verbatim>\<open>anchorRoot\<close> of \<open>r\<close>; \<open>exampleHash\<close> stands for the ledger's pair hash.
\<close>

definition packageOf :: "regResponse \<Rightarrow> jsobject option" where
  "packageOf r = (case r of RegOk m h pkg \<Rightarrow> Some pkg | RegError c e \<Rightarrow> None)"

definition exampleWallet :: walletT where
  "exampleWallet = \<lparr>address = ''0xAbC1'', signMessage = (\<lambda>m. Some (''signed:'' @ m))\<rparr>"

definition exampleHash :: "bytes32 \<Rightarrow> bytes32 \<Rightarrow> bytes32" where
  "exampleHash a b = 2 * a + b"

definition exampleLedger :: "bytes32 \<Rightarrow> ledger" where
  "exampleLedger r = (case anchorRoot deployed 0 r of Inr (st, i) \<Rightarrow> st | Inl e \<Rightarrow> deployed)"

definition exampleTx :: anchorOutcome where
  "exampleTx = AnchorReturns (Some \<lparr>hash = Some ''0xfeed'',
     wait = Some (WaitReturns (Some \<lparr>transactionHash = Some ''0xfeed'', logs = Some []\<rparr>))\<rparr>)"

definition exampleServer :: "ledger \<Rightarrow> 8 word list \<Rightarrow> string \<Rightarrow> walletT option \<Rightarrow> anchorOutcome \<Rightarrow> server" where
  "exampleServer st saltBytes now key outcome = \<lparr>
     jwt_verify = (\<lambda>t. if t = JStr ''token-1'' then Some (JStr '' User@Example.com '') else None),
     jwt_sign = (\<lambda>u n. ''session:'' @ jsString u),
     isEmail = (\<lambda>e. CHR ''@'' \<in> set e),
     keccak256 = (\<lambda>s. of_nat (length s) + 4096),
     poseidon = (\<lambda>xs. Some (nat (foldl (\<lambda>a x. 31 * a + x) 7 xs))),
     randomBytes16 = saltBytes,
     toISOString = now,
     SEP_RPC = True,
     CONTRACT_ADDR = True,
     DEPLOYER_PRIVATE_KEY = key,
     contract_anchorRoot = (\<lambda>r. outcome),
     contract_rootToId = (\<lambda>r. case r of
        None \<Rightarrow> None
      | Some h \<Rightarrow> map_option (\<lambda>b. unat (rootToId st b)) (abiBytes32 (JStr h))),
     verifyMessage = (\<lambda>m sg. if sg = JStr (''signed:'' @ m) then Some ''0xabc1'' else None),
     readContract_verifyUser = ledger_verifyUser (merkleVerify exampleHash) st\<rparr>"

text \<open>The registration that the examples run: the token above and the passphrase
  \<^verbatim>\<open>Str0ng!Pass\<close>. With the stand-in hashes its leaf is the value below.\<close>

definition exampleLeaf :: string where
  "exampleLeaf = ''0x0000000000000000000000000000000000000000000000000000000000023762''"

definition exampleSalt :: "8 word list" where
  "exampleSalt = replicate 16 165"

definition exampleTime :: string where
  "exampleTime = ''2024-01-01T00:00:00.000Z''"

text \<open>The package that registration makes, before the id is written into it.\<close>

definition examplePackage :: "8 word list \<Rightarrow> string \<Rightarrow> walletT option \<Rightarrow> jsobject" where
  "examplePackage sb now key =
     packageObject ''0x10e9'' (Some ''4329'') ''0x10e4'' (Some ''4324'') (''0x'' @ bytesToHex sb) now
       exampleLeaf (Some ''145250'') exampleLeaf (Some ''145250'') []
       (map_option address key)
       (case key of None \<Rightarrow> None | Some w \<Rightarrow> Some (''signed:'' @ buildPayloadString
            [''leaf'' \<mapsto> JStr exampleLeaf, ''root'' \<mapsto> JStr exampleLeaf,
             ''email_hash'' \<mapsto> JStr ''0x10e9'', ''parahash'' \<mapsto> JStr ''0x10e4'',
             ''salt'' \<mapsto> JStr (''0x'' @ bytesToHex sb), ''timestamp'' \<mapsto> JStr now]))"

definition exampleRegistration :: "ledger \<Rightarrow> 8 word list \<Rightarrow> string \<Rightarrow> walletT option \<Rightarrow> anchorOutcome \<Rightarrow> regResponse" where
  "exampleRegistration st saltBytes now key outcome =
     completeRegistrationHandler (exampleServer st saltBytes now key outcome)
       (JStr ''token-1'') (JStr ''Str0ng!Pass'')"

section \<open>Properties of the ledger\<close>

lemma anchorRoot_Inr:
  assumes "anchorRoot st sender root = Inr (st', i)"
  shows "root \<noteq> 0" and "nextId st \<noteq> - 1" and "i = nextId st + 1"
    and "nextId st' = nextId st + 1"
    and "roots st' = (roots st)(nextId st + 1 := root)"
    and "unat i = Suc (unat (nextId st))"
proof -
  from assms show r: "root \<noteq> 0" and m: "nextId st \<noteq> - 1"
    by (auto simp: anchorRoot_def split: if_splits)
  from assms r m show "i = nextId st + 1" and "nextId st' = nextId st + 1"
    and "roots st' = (roots st)(nextId st + 1 := root)"
    by (auto simp: anchorRoot_def Let_def)
  from m have "1 + nextId st \<noteq> 0"
    by (metis add_eq_0_iff)
  then have "unat (1 + nextId st) = Suc (unat (nextId st))"
    by (rule unatSuc)
  with \<open>i = nextId st + 1\<close> show "unat i = Suc (unat (nextId st))"
    by (simp add: add.commute)
qed

lemma upt_shift:
  "[Suc a..<Suc (a + length (c # cs))] = Suc a # [Suc (Suc a)..<Suc (Suc a + length cs)]"
  by (simp del: upt_Suc add: upt_rec [of "Suc a"])

lemma anchorRoots_general:
  "anchorRoots st0 calls = Inr (st, ids) \<Longrightarrow>
     map unat ids = [Suc (unat (nextId st0))..<Suc (unat (nextId st0) + length calls)]
     \<and> unat (nextId st) = unat (nextId st0) + length calls
     \<and> (\<forall>i. unat i \<le> unat (nextId st0) \<longrightarrow> roots st i = roots st0 i)
     \<and> (\<forall>k<length calls. roots st (ids ! k) = snd (calls ! k))"
proof (induction calls arbitrary: st0 st ids)
  case Nil
  then show ?case by simp
next
  case (Cons c cs)
  from Cons.prems obtain st1 i js where
    a: "anchorRoot st0 (fst c) (snd c) = Inr (st1, i)" and
    r: "anchorRoots st1 cs = Inr (st, js)" and
    ids: "ids = i # js"
    by (auto split: sum.splits prod.splits)
  note f = anchorRoot_Inr [OF a]
  have n1: "unat (nextId st1) = Suc (unat (nextId st0))"
    using f(3,4,6) by simp
  from Cons.IH [OF r] n1 have
    m: "map unat js = [Suc (Suc (unat (nextId st0)))..<Suc (Suc (unat (nextId st0)) + length cs)]" and
    n: "unat (nextId st) = Suc (unat (nextId st0)) + length cs" and
    keep: "\<forall>j. unat j \<le> Suc (unat (nextId st0)) \<longrightarrow> roots st j = roots st1 j" and
    at: "\<forall>k<length cs. roots st (js ! k) = snd (cs ! k)"
    by simp_all
  have "map unat ids = [Suc (unat (nextId st0))..<Suc (unat (nextId st0) + length (c # cs))]"
    using m f(6) ids by (simp only: list.map upt_shift)
  moreover have "unat (nextId st) = unat (nextId st0) + length (c # cs)"
    using n by simp
  moreover have "\<forall>j. unat j \<le> unat (nextId st0) \<longrightarrow> roots st j = roots st0 j"
  proof (intro allI impI)
    fix j :: uint256
    assume le: "unat j \<le> unat (nextId st0)"
    then have "j \<noteq> nextId st0 + 1"
      using f(3,6) by auto
    with keep le f(5) show "roots st j = roots st0 j"
      by simp
  qed
  moreover have "\<forall>k<length (c # cs). roots st (ids ! k) = snd ((c # cs) ! k)"
  proof (intro allI impI)
    fix k
    assume k: "k < length (c # cs)"
    show "roots st (ids ! k) = snd ((c # cs) ! k)"
    proof (cases k)
      case 0
      have "roots st i = roots st1 i"
        using keep f(6) by simp
      with f(3,5) 0 ids show ?thesis by simp
    next
      case (Suc k')
      with k at ids show ?thesis by simp
    qed
  qed
  ultimately show ?case by blast
qed

lemma verifyUser_in_range:
  "0 < uniqId \<Longrightarrow> uniqId \<le> nextId st \<Longrightarrow>
     verifyUser (merkleVerify H) st uniqId leaf pf = Inr (processProof H pf leaf = roots st uniqId)"
  by (simp add: verifyUser_def merkleVerify_def)

text \<open>
  C4. Starting from the freshly deployed ledger, any run of successful \<^verbatim>\<open>anchorRoot\<close>
  calls returns the ids 1, 2, 3, ... in call order, whatever the roots are (equal or
  not): the ids are strictly increasing and pairwise distinct, and afterwards the root
  of every call verifies under the id that call returned (as a single leaf, with the
  empty proof). Two calls with the same root are two positions of the run, so they get
  two different ids and both verify.
\<close>

theorem anchorRoot_ids_increase_from_one:
  assumes "anchorRoots deployed calls = Inr (st, ids)"
  shows "map unat ids = [1..<Suc (length calls)]
    \<and> sorted_wrt (<) ids \<and> distinct ids
    \<and> (\<forall>k<length calls. verifyUser (merkleVerify H) st (ids ! k) (snd (calls ! k)) [] = Inr True)"
proof -
  have d: "unat (nextId deployed) = 0"
    by (simp add: deployed_def)
  from anchorRoots_general [OF assms] d have
    m: "map unat ids = [1..<Suc (length calls)]" and
    n: "unat (nextId st) = length calls" and
    at: "\<forall>k<length calls. roots st (ids ! k) = snd (calls ! k)"
    by simp_all
  have len: "length ids = length calls"
    using m by (metis length_map length_upt diff_Suc_1)
  have "sorted_wrt (<) (map unat ids)"
    unfolding m by (simp del: upt_Suc)
  then have s: "sorted_wrt (<) ids"
    unfolding sorted_wrt_map by (rule sorted_wrt_mono_rel [rotated]) (simp add: word_less_nat_alt)
  have "distinct (map unat ids)"
    unfolding m by (simp del: upt_Suc)
  then have dist: "distinct ids"
    by (simp add: distinct_map)
  have "\<forall>k<length calls. verifyUser (merkleVerify H) st (ids ! k) (snd (calls ! k)) [] = Inr True"
  proof (intro allI impI)
    fix k
    assume k: "k < length calls"
    have "unat (ids ! k) = map unat ids ! k"
      using k len by simp
    also have "\<dots> = Suc k"
      using k unfolding m by (simp del: upt_Suc)
    finally have u: "unat (ids ! k) = Suc k" .
    have pos: "0 < ids ! k"
      using u by (simp add: word_less_nat_alt)
    have le: "ids ! k \<le> nextId st"
      using u n k by (simp add: word_le_nat_alt)
    show "verifyUser (merkleVerify H) st (ids ! k) (snd (calls ! k)) [] = Inr True"
      using at k by (simp add: verifyUser_in_range [OF pos le])
  qed
  with m s dist show ?thesis by blast
qed

theorem anchorRoot_ids_increase_from_one_witness:
  "\<exists>st. anchorRoots deployed [(5, 7), (5, 7)] = Inr (st, [1, 2])
     \<and> verifyUser (merkleVerify (+)) st 1 7 [] = Inr True \<and> verifyUser (merkleVerify (+)) st 2 7 [] = Inr True"
proof -
  obtain st where a: "anchorRoots deployed [(5, 7), (5, 7)] = Inr (st, [1, 2])"
    by (simp add: anchorRoot_def deployed_def)
  from anchorRoot_ids_increase_from_one [OF a, of "(+)"]
  have v: "\<forall>k<Suc (Suc 0). verifyUser (merkleVerify (+)) st ([1, 2] ! k) (snd ([(5 :: address, 7), (5, 7)] ! k)) [] = Inr True"
    by simp
  from v [rule_format, of 0] have "verifyUser (merkleVerify (+)) st 1 7 [] = Inr True"
    by simp
  moreover from v [rule_format, of 1] have "verifyUser (merkleVerify (+)) st 2 7 [] = Inr True"
    by simp
  ultimately show ?thesis using a by blast
qed

lemma verifyUser_out_of_range:
  "\<not> (0 < uniqId \<and> uniqId \<le> nextId st) \<Longrightarrow>
     verifyUser V st uniqId lf pf = Inl (Revert ''invalid uniqId'')"
  by (simp add: verifyUser_def)

lemma commutativeHash_min_max: "commutativeHash H a b = H (min a b) (max a b)"
  by (auto simp: commutativeHash_def min_def max_def)

lemma processProof_is_foldl: "processProof H pf lf = foldl (commutativeHash H) lf pf"
  by (induction pf arbitrary: lf) simp_all

lemma exampleLedger_simps:
  "r \<noteq> 0 \<Longrightarrow> nextId (exampleLedger r) = 1"
  "r \<noteq> 0 \<Longrightarrow> roots (exampleLedger r) 1 = r"
  by (simp_all add: exampleLedger_def anchorRoot_def deployed_def)

text \<open>
  C2, as the code has it. For an id in range, \<^verbatim>\<open>verifyUser\<close> folds the proof into the
  leaf with the ledger library's pair hash \<open>H\<close>, ordering every pair by value (the
  smaller 32-byte value is the left operand; no tree index takes part), and returns
  whether the result is exactly the stored root. With the empty proof no hash is applied
  and the answer is whether the leaf is the stored root.
\<close>

theorem verifyUser_folds_value_ordered_pairs:
  assumes "0 < uniqId" and "uniqId \<le> nextId st"
  shows "verifyUser (merkleVerify H) st uniqId lf pf =
           Inr (foldl (\<lambda>c s. H (min c s) (max c s)) lf pf = roots st uniqId)"
  using assms
  by (simp add: verifyUser_in_range processProof_is_foldl commutativeHash_min_max [abs_def])

theorem verifyUser_folds_value_ordered_pairs_witness:
  "(0 :: uint256) < 1 \<and> 1 \<le> nextId (exampleLedger (exampleHash 3 5))
   \<and> verifyUser (merkleVerify exampleHash) (exampleLedger (exampleHash 3 5)) 1 5 [3] = Inr True
   \<and> verifyUser (merkleVerify exampleHash) (exampleLedger (exampleHash 3 5)) 1 3 [5] = Inr True
   \<and> verifyUser (merkleVerify exampleHash) (exampleLedger (exampleHash 3 5)) 1 5 [] = Inr False"
proof -
  have a: "(0 :: uint256) < 1" and b: "1 \<le> nextId (exampleLedger (exampleHash 3 5))"
    by (simp_all add: exampleLedger_simps exampleHash_def)
  show ?thesis
    using a b verifyUser_folds_value_ordered_pairs [OF a b, of exampleHash 5 "[3]"]
      verifyUser_folds_value_ordered_pairs [OF a b, of exampleHash 3 "[5]"]
      verifyUser_folds_value_ordered_pairs [OF a b, of exampleHash 5 "[]"]
    by (simp add: exampleLedger_simps exampleHash_def)
qed

text \<open>
  C2, as the claim states it, fails. Take the two-leaf tree with leaves 5 (index 0) and
  3 (index 1): by the index convention its root is \<open>H 5 3\<close>, and the proof of leaf 5 is
  \<open>[3]\<close>. With that root anchored under id 1, the index-ordered fold of the proof gives
  the stored root, yet \<^verbatim>\<open>verifyUser\<close> hashes the pair as \<open>H 3 5\<close> (3 is the smaller
  value) and answers false. \<open>exampleHash\<close> stands for any pair hash that is sensitive to
  the order of its operands; the lemma after it states the same for every such hash.
\<close>

theorem verifyUser_index_order_counterexample:
  "verifyUser (merkleVerify exampleHash) (exampleLedger (exampleHash 5 3)) 1 5 [3]
     \<noteq> Inr (spec_foldProof exampleHash 0 5 [3] = roots (exampleLedger (exampleHash 5 3)) 1)"
  by (simp add: verifyUser_def merkleVerify_def commutativeHash_def
      exampleLedger_simps exampleHash_def)

lemma verifyUser_index_order_mismatch:
  assumes "0 < uniqId" and "uniqId \<le> nextId st" and "b < a" and "H a b \<noteq> H b a"
    and "roots st uniqId = spec_foldProof H 0 a [b]"
  shows "verifyUser (merkleVerify H) st uniqId a [b] = Inr False"
  using assms by (simp add: verifyUser_in_range commutativeHash_def)

section \<open>The passphrase policy\<close>

lemma isUpper_iff: "isUpper c \<longleftrightarrow> c \<in> set ''ABCDEFGHIJKLMNOPQRSTUVWXYZ''"
  by (cases c) (auto simp: isUpper_def)

lemma isLower_iff: "isLower c \<longleftrightarrow> c \<in> set ''abcdefghijklmnopqrstuvwxyz''"
  by (cases c) (auto simp: isLower_def)

lemma isDigit_iff: "isDigit c \<longleftrightarrow> c \<in> set ''0123456789''"
  by (cases c) (auto simp: isDigit_def)

lemma list_ex_none: "(\<not> list_ex P xs) \<longleftrightarrow> (\<forall>c\<in>set xs. \<not> P c)"
  by (simp add: list_ex_iff)

lemma strengthErrors_labels:
  "([CHR 0xE2, CHR 0x89, CHR 0xA5] @ ''8 chars'' \<in> set (strengthErrors (JStr p))) = (length p < 8)"
  "(''uppercase'' \<in> set (strengthErrors (JStr p))) = (\<forall>c\<in>set p. c \<notin> set ''ABCDEFGHIJKLMNOPQRSTUVWXYZ'')"
  "(''lowercase'' \<in> set (strengthErrors (JStr p))) = (\<forall>c\<in>set p. c \<notin> set ''abcdefghijklmnopqrstuvwxyz'')"
  "(''digit'' \<in> set (strengthErrors (JStr p))) = (\<forall>c\<in>set p. c \<notin> set ''0123456789'')"
  "(''special'' \<in> set (strengthErrors (JStr p))) = (\<forall>c\<in>set p. c \<notin> set ''!@#$%^&*'')"
  unfolding strengthErrors_def list_ex_iff isUpper_iff isLower_iff isDigit_iff isSpecial_def
  by auto

lemma strengthErrors_empty:
  "(strengthErrors (JStr p) = []) =
     (\<not> length p < 8
      \<and> \<not> (\<forall>c\<in>set p. c \<notin> set ''ABCDEFGHIJKLMNOPQRSTUVWXYZ'')
      \<and> \<not> (\<forall>c\<in>set p. c \<notin> set ''abcdefghijklmnopqrstuvwxyz'')
      \<and> \<not> (\<forall>c\<in>set p. c \<notin> set ''0123456789'')
      \<and> \<not> (\<forall>c\<in>set p. c \<notin> set ''!@#$%^&*''))"
  unfolding strengthErrors_def list_ex_iff isUpper_iff isLower_iff isDigit_iff isSpecial_def
  by auto

lemma registration_rejects_on_errors:
  assumes "truthy token" and "truthy pp" and "jwt_verify env token = Some pe"
    and "isEmail env (normalizeEmail (if truthy pe then pe else JStr []))"
    and "strengthErrors pp \<noteq> []"
  shows "completeRegistrationHandler env token pp =
           RegError 400 (''Paraphrase needs: '' @ join '', '' (strengthErrors pp))"
  using assms by (simp add: completeRegistrationHandler_def Let_def)

lemma strengthErrors_weak:
  "strengthErrors (JStr ''weak'') =
     [[CHR 0xE2, CHR 0x89, CHR 0xA5] @ ''8 chars'', ''uppercase'', ''digit'', ''special'']"
  by (simp add: strengthErrors_def isUpper_def isLower_def isDigit_def isSpecial_def)

text \<open>
  C8. A passphrase that violates the policy (fewer than 8 characters, or no upper-case
  letter, or no lower-case letter, or no digit, or none of the symbols
  \<^verbatim>\<open>!@#$%^&*\<close>) is rejected with one response of status 400 whose text lists a label
  for every category that is missing and for no other. The passphrase \<^verbatim>\<open>weak\<close> is
  rejected with the four labels for length, upper case, digit and symbol.
\<close>

theorem weak_passphrase_lists_every_missing_category:
  assumes "truthy token" and "jwt_verify env token = Some pe"
    and "isEmail env (normalizeEmail (if truthy pe then pe else JStr []))"
    and "p \<noteq> []"
    and "length p < 8
       \<or> (\<forall>c\<in>set p. c \<notin> set ''ABCDEFGHIJKLMNOPQRSTUVWXYZ'')
       \<or> (\<forall>c\<in>set p. c \<notin> set ''abcdefghijklmnopqrstuvwxyz'')
       \<or> (\<forall>c\<in>set p. c \<notin> set ''0123456789'')
       \<or> (\<forall>c\<in>set p. c \<notin> set ''!@#$%^&*'')"
  shows "(\<exists>errs. completeRegistrationHandler env token (JStr p) =
                  RegError 400 (''Paraphrase needs: '' @ join '', '' errs)
            \<and> ([CHR 0xE2, CHR 0x89, CHR 0xA5] @ ''8 chars'' \<in> set errs) = (length p < 8)
            \<and> (''uppercase'' \<in> set errs) = (\<forall>c\<in>set p. c \<notin> set ''ABCDEFGHIJKLMNOPQRSTUVWXYZ'')
            \<and> (''lowercase'' \<in> set errs) = (\<forall>c\<in>set p. c \<notin> set ''abcdefghijklmnopqrstuvwxyz'')
            \<and> (''digit'' \<in> set errs) = (\<forall>c\<in>set p. c \<notin> set ''0123456789'')
            \<and> (''special'' \<in> set errs) = (\<forall>c\<in>set p. c \<notin> set ''!@#$%^&*''))
       \<and> completeRegistrationHandler env token (JStr ''weak'') =
           RegError 400 (''Paraphrase needs: '' @ [CHR 0xE2, CHR 0x89, CHR 0xA5] @
                         ''8 chars, uppercase, digit, special'')"
proof -
  have ne: "strengthErrors (JStr p) \<noteq> []"
    using assms(5) by (simp only: strengthErrors_empty) blast
  have tp: "truthy (JStr p)"
    using assms(4) by simp
  have r: "completeRegistrationHandler env token (JStr p) =
             RegError 400 (''Paraphrase needs: '' @ join '', '' (strengthErrors (JStr p)))"
    by (rule registration_rejects_on_errors [OF assms(1) tp assms(2,3) ne])
  have w: "completeRegistrationHandler env token (JStr ''weak'') =
             RegError 400 (''Paraphrase needs: '' @ join '', '' (strengthErrors (JStr ''weak'')))"
    by (rule registration_rejects_on_errors [OF assms(1) _ assms(2,3)])
      (simp_all add: strengthErrors_weak)
  have w': "completeRegistrationHandler env token (JStr ''weak'') =
           RegError 400 (''Paraphrase needs: '' @ [CHR 0xE2, CHR 0x89, CHR 0xA5] @
                         ''8 chars, uppercase, digit, special'')"
    using w by (simp add: strengthErrors_weak)
  show ?thesis
  proof (intro conjI)
    show "\<exists>errs. completeRegistrationHandler env token (JStr p) =
                  RegError 400 (''Paraphrase needs: '' @ join '', '' errs)
            \<and> ([CHR 0xE2, CHR 0x89, CHR 0xA5] @ ''8 chars'' \<in> set errs) = (length p < 8)
            \<and> (''uppercase'' \<in> set errs) = (\<forall>c\<in>set p. c \<notin> set ''ABCDEFGHIJKLMNOPQRSTUVWXYZ'')
            \<and> (''lowercase'' \<in> set errs) = (\<forall>c\<in>set p. c \<notin> set ''abcdefghijklmnopqrstuvwxyz'')
            \<and> (''digit'' \<in> set errs) = (\<forall>c\<in>set p. c \<notin> set ''0123456789'')
            \<and> (''special'' \<in> set errs) = (\<forall>c\<in>set p. c \<notin> set ''!@#$%^&*'')"
      by (rule exI [of _ "strengthErrors (JStr p)"]) (simp only: r strengthErrors_labels simp_thms)
    show "completeRegistrationHandler env token (JStr ''weak'') =
           RegError 400 (''Paraphrase needs: '' @ [CHR 0xE2, CHR 0x89, CHR 0xA5] @
                         ''8 chars, uppercase, digit, special'')"
      by (rule w')
  qed
qed

theorem weak_passphrase_lists_every_missing_category_witness:
  "truthy (JStr ''token-1'')
   \<and> jwt_verify (exampleServer deployed exampleSalt exampleTime None exampleTx) (JStr ''token-1'') = Some (JStr '' User@Example.com '')
   \<and> isEmail (exampleServer deployed exampleSalt exampleTime None exampleTx) (normalizeEmail (JStr '' User@Example.com ''))
   \<and> ''Pass1!'' \<noteq> []
   \<and> length ''Pass1!'' < 8
   \<and> completeRegistrationHandler (exampleServer deployed exampleSalt exampleTime None exampleTx) (JStr ''token-1'') (JStr ''Pass1!'') =
        RegError 400 (''Paraphrase needs: '' @ [CHR 0xE2, CHR 0x89, CHR 0xA5] @ ''8 chars'')
   \<and> completeRegistrationHandler (exampleServer deployed exampleSalt exampleTime None exampleTx) (JStr ''token-1'') (JStr ''weak'') =
        RegError 400 (''Paraphrase needs: '' @ [CHR 0xE2, CHR 0x89, CHR 0xA5] @
                      ''8 chars, uppercase, digit, special'')"
proof -
  have t: "truthy (JStr ''token-1'')"
    by simp
  have j: "jwt_verify (exampleServer deployed exampleSalt exampleTime None exampleTx) (JStr ''token-1'') = Some (JStr '' User@Example.com '')"
    by (simp add: exampleServer_def)
  have e: "isEmail (exampleServer deployed exampleSalt exampleTime None exampleTx)
             (normalizeEmail (if truthy (JStr '' User@Example.com '') then JStr '' User@Example.com '' else JStr []))"
    by (simp add: exampleServer_def normalizeEmail_def strOrEmpty_def trim_def toLowerCase_def
        lowerChar_def isWhiteSpace_def)
  have n: "''Pass1!'' \<noteq> []"
    by simp
  have v: "length ''Pass1!'' < 8
       \<or> (\<forall>c\<in>set ''Pass1!''. c \<notin> set ''ABCDEFGHIJKLMNOPQRSTUVWXYZ'')
       \<or> (\<forall>c\<in>set ''Pass1!''. c \<notin> set ''abcdefghijklmnopqrstuvwxyz'')
       \<or> (\<forall>c\<in>set ''Pass1!''. c \<notin> set ''0123456789'')
       \<or> (\<forall>c\<in>set ''Pass1!''. c \<notin> set ''!@#$%^&*'')"
    by simp
  have s: "strengthErrors (JStr ''Pass1!'') = [[CHR 0xE2, CHR 0x89, CHR 0xA5] @ ''8 chars'']"
    by (simp add: strengthErrors_def isUpper_def isLower_def isDigit_def isSpecial_def)
  from weak_passphrase_lists_every_missing_category [OF t j e n v]
  have w: "completeRegistrationHandler (exampleServer deployed exampleSalt exampleTime None exampleTx) (JStr ''token-1'') (JStr ''weak'') =
        RegError 400 (''Paraphrase needs: '' @ [CHR 0xE2, CHR 0x89, CHR 0xA5] @
                      ''8 chars, uppercase, digit, special'')"
    by blast
  have r: "completeRegistrationHandler (exampleServer deployed exampleSalt exampleTime None exampleTx) (JStr ''token-1'') (JStr ''Pass1!'') =
        RegError 400 (''Paraphrase needs: '' @ [CHR 0xE2, CHR 0x89, CHR 0xA5] @ ''8 chars'')"
    using registration_rejects_on_errors [OF t _ j e, of "JStr ''Pass1!''"] s by simp
  show ?thesis
    using t j e n w r by simp
qed

section \<open>The package the registration handler returns\<close>

lemma completeRegistrationHandler_RegOk:
  assumes "completeRegistrationHandler env token pp = RegOk m h pkg"
  obtains pe eh ph lf pkg0 where
    "truthy token" and "truthy pp" and "jwt_verify env token = Some pe"
    and "isEmail env (normalizeEmail (if truthy pe then pe else JStr []))"
    and "strengthErrors pp = []"
    and "poseidonHashHexFromUtf8 env (JStr (normalizeEmail (if truthy pe then pe else JStr []))) = Some eh"
    and "poseidonHashHexFromUtf8 env pp = Some ph"
    and "poseidonHashHexFromFieldHex env eh ph = Some lf"
    and "minimalPackage env eh ph (''0x'' @ bytesToHex (randomBytes16 env)) (toISOString env) lf lf [] = Some pkg0"
    and "anchorPackage env lf pkg0 = RegOk m h pkg"
  using assms unfolding completeRegistrationHandler_def
  by (auto simp: Let_def split: if_splits option.splits)

lemma getProp_packageObject:
  "getProp (packageObject eh ehd ph phd sl ts rt rtd lf lfd pfs sg sig) ''uniq_id'' = JNull"
  "getProp (packageObject eh ehd ph phd sl ts rt rtd lf lfd pfs sg sig) ''email_hash'' = JStr eh"
  "getProp (packageObject eh ehd ph phd sl ts rt rtd lf lfd pfs sg sig) ''parahash'' = JStr ph"
  "getProp (packageObject eh ehd ph phd sl ts rt rtd lf lfd pfs sg sig) ''salt'' = JStr sl"
  "getProp (packageObject eh ehd ph phd sl ts rt rtd lf lfd pfs sg sig) ''timestamp'' = JStr ts"
  "getProp (packageObject eh ehd ph phd sl ts rt rtd lf lfd pfs sg sig) ''root'' = JStr rt"
  "getProp (packageObject eh ehd ph phd sl ts rt rtd lf lfd pfs sg sig) ''leaf'' = JStr lf"
  "getProp (packageObject eh ehd ph phd sl ts rt rtd lf lfd pfs sg sig) ''proof'' = JArr pfs"
  "getProp (packageObject eh ehd ph phd sl ts rt rtd lf lfd pfs sg sig) ''signer'' =
     (case sg of None \<Rightarrow> JNull | Some a \<Rightarrow> if a = [] then JNull else JStr a)"
  "getProp (packageObject eh ehd ph phd sl ts rt rtd lf lfd pfs sg sig) ''signature'' = optStr sig"
  by (simp_all add: packageObject_def getProp_def)

lemma minimalPackage_Some:
  assumes "minimalPackage env eh ph sl ts lf rt pfs = Some pkg0"
  obtains ehd phd rtd lfd sig where
    "pkg0 = packageObject eh ehd ph phd sl ts rt rtd lf lfd pfs (signerAddress env) sig"
    and "wallet env = None \<longrightarrow> sig = None"
  using assms unfolding minimalPackage_def Let_def
  by (auto split: option.splits prod.splits)

lemma toDec_not_Nil: "toDec n \<noteq> []"
  by (subst toDec.simps) simp

lemma firstRootAnchored_cases:
  "firstRootAnchored ls = None \<or> (\<exists>n. firstRootAnchored ls = Some (toDec n))"
  by (induction ls rule: firstRootAnchored.induct) (auto split: option.splits)

lemma assignedNumId_cases:
  "assignedNumId env r rcpt = None \<or> (\<exists>n. assignedNumId env r rcpt = Some (toDec n))"
  using firstRootAnchored_cases
  by (auto simp: assignedNumId_def Let_def split: option.splits)

lemma uniqAssignedString_cases:
  "uniqAssignedString (assignedNumId env r rcpt) = None
   \<or> (\<exists>n. uniqAssignedString (assignedNumId env r rcpt) = Some (''UNIQ-'' @ padStart (toDec n) 6 CHR ''0''))"
  using assignedNumId_cases [of env r rcpt]
  by (auto simp: uniqAssignedString_def toDec_not_Nil)

lemma anchorPackage_RegOk:
  assumes "anchorPackage env rt pkg0 = RegOk m h pkg"
  shows "pkg = pkg0 \<or> (\<exists>n. pkg = pkg0(''uniq_id'' \<mapsto> JStr (''UNIQ-'' @ padStart (toDec n) 6 CHR ''0'')))"
proof (cases "contract env \<and> wallet env \<noteq> None")
  case False
  with assms show ?thesis by (simp add: anchorPackage_def)
next
  case True
  from assms True obtain rcpt where
    p: "pkg = withUniqId pkg0 (uniqAssignedString (assignedNumId env (to0xPadded32 rt) rcpt))"
    by (auto simp: anchorPackage_def Let_def split: anchorOutcome.splits option.splits)
  from uniqAssignedString_cases [of env "to0xPadded32 rt" rcpt] p show ?thesis
    by (auto simp: withUniqId_def)
qed

lemma anchorPackage_other_fields:
  assumes "anchorPackage env rt pkg0 = RegOk m h pkg" and "f \<noteq> ''uniq_id''"
  shows "getProp pkg f = getProp pkg0 f"
  using anchorPackage_RegOk [OF assms(1)] assms(2) by (auto simp: getProp_def)

lemma anchorPackage_no_wallet:
  assumes "anchorPackage env rt pkg0 = RegOk m h pkg" and "wallet env = None"
  shows "pkg = pkg0"
  using assms by (simp add: anchorPackage_def)

text \<open>What every package that the registration handler returns looks like.\<close>

lemma registration_package:
  assumes "completeRegistrationHandler env token pp = RegOk m h pkg"
  obtains pe eh ph lf where
    "jwt_verify env token = Some pe"
    and "poseidonHashHexFromUtf8 env (JStr (normalizeEmail (if truthy pe then pe else JStr []))) = Some eh"
    and "poseidonHashHexFromUtf8 env pp = Some ph"
    and "poseidonHashHexFromFieldHex env eh ph = Some lf"
    and "getProp pkg ''email_hash'' = JStr eh"
    and "getProp pkg ''parahash'' = JStr ph"
    and "getProp pkg ''leaf'' = JStr lf"
    and "getProp pkg ''root'' = JStr lf"
    and "getProp pkg ''proof'' = JArr []"
    and "getProp pkg ''salt'' = JStr (''0x'' @ bytesToHex (randomBytes16 env))"
    and "getProp pkg ''timestamp'' = JStr (toISOString env)"
    and "wallet env = None \<longrightarrow> getProp pkg ''signer'' = JNull"
    and "wallet env = None \<longrightarrow> getProp pkg ''signature'' = JNull"
    and "wallet env = None \<longrightarrow> getProp pkg ''uniq_id'' = JNull"
    and "getProp pkg ''uniq_id'' = JNull
         \<or> (\<exists>n. getProp pkg ''uniq_id'' = JStr (''UNIQ-'' @ padStart (toDec n) 6 CHR ''0''))"
proof -
  from assms obtain pe eh ph lf pkg0 where
    j: "jwt_verify env token = Some pe"
    and h1: "poseidonHashHexFromUtf8 env (JStr (normalizeEmail (if truthy pe then pe else JStr []))) = Some eh"
    and h2: "poseidonHashHexFromUtf8 env pp = Some ph"
    and h3: "poseidonHashHexFromFieldHex env eh ph = Some lf"
    and mp: "minimalPackage env eh ph (''0x'' @ bytesToHex (randomBytes16 env)) (toISOString env) lf lf [] = Some pkg0"
    and ap: "anchorPackage env lf pkg0 = RegOk m h pkg"
    by (rule completeRegistrationHandler_RegOk)
  from mp obtain ehd phd rtd lfd sig where
    p0: "pkg0 = packageObject eh ehd ph phd (''0x'' @ bytesToHex (randomBytes16 env)) (toISOString env)
                  lf rtd lf lfd [] (signerAddress env) sig"
    and nosig: "wallet env = None \<longrightarrow> sig = None"
    by (rule minimalPackage_Some)
  note o = anchorPackage_other_fields [OF ap]
  have u0: "getProp pkg0 ''uniq_id'' = JNull"
    by (simp add: p0 getProp_packageObject)
  have u: "getProp pkg ''uniq_id'' = JNull
         \<or> (\<exists>n. getProp pkg ''uniq_id'' = JStr (''UNIQ-'' @ padStart (toDec n) 6 CHR ''0''))"
    using anchorPackage_RegOk [OF ap] u0 by (auto simp: getProp_def)
  have nw: "wallet env = None \<longrightarrow> getProp pkg ''uniq_id'' = JNull"
    using anchorPackage_no_wallet [OF ap] u0 by simp
  show thesis
  proof (rule that [OF j h1 h2 h3])
    show "getProp pkg ''email_hash'' = JStr eh" "getProp pkg ''parahash'' = JStr ph"
      "getProp pkg ''leaf'' = JStr lf" "getProp pkg ''root'' = JStr lf"
      "getProp pkg ''proof'' = JArr []"
      "getProp pkg ''salt'' = JStr (''0x'' @ bytesToHex (randomBytes16 env))"
      "getProp pkg ''timestamp'' = JStr (toISOString env)"
      by (simp_all add: o p0 getProp_packageObject)
    show "wallet env = None \<longrightarrow> getProp pkg ''signer'' = JNull"
      by (simp add: o p0 getProp_packageObject signerAddress_def)
    show "wallet env = None \<longrightarrow> getProp pkg ''signature'' = JNull"
      using nosig by (simp add: o p0 getProp_packageObject optStr_def)
    show "wallet env = None \<longrightarrow> getProp pkg ''uniq_id'' = JNull"
      by (rule nw)
    show "getProp pkg ''uniq_id'' = JNull
         \<or> (\<exists>n. getProp pkg ''uniq_id'' = JStr (''UNIQ-'' @ padStart (toDec n) 6 CHR ''0''))"
      by (rule u)
  qed
qed

section \<open>Running the example\<close>

lemma replicate_numeral: "replicate (numeral k) x = x # replicate (pred_numeral k) x"
  by (simp add: numeral_eq_Suc)

lemmas js_eval = char_of_def bit_Suc_0_iff replicate_numeral
  getProp_def strOrEmpty_def optStr_def lowerChar_def toLowerCase_def isWhiteSpace_def trim_def
  startsWith_def padStart_def isDigit_def isUpper_def isLower_def isSpecial_def digitChar_def
  toHex.simps toDec.simps bigIntToString_def digitVal_def parseNonEmpty_def BigInt_def Number_def
  decimalValue_def
  bytesToHex_def buildPayloadString_def

lemmas config_eval =
  provider_def wallet_def signerAddress_def contract_def exampleWallet_def exampleHash_def
  exampleServer_def exampleTx_def

lemma ex_token:
  "jwt_verify (exampleServer st sb now key oc) (JStr ''token-1'') = Some (JStr '' User@Example.com '')"
  by (simp add: exampleServer_def)

lemma ex_email:
  "normalizeEmail (if truthy (JStr '' User@Example.com '') then JStr '' User@Example.com '' else JStr [])
     = ''user@example.com''"
  by (simp add: js_eval normalizeEmail_def)

lemma ex_isEmail: "isEmail (exampleServer st sb now key oc) ''user@example.com''"
  by (simp add: exampleServer_def)

lemma ex_strength: "strengthErrors (JStr ''Str0ng!Pass'') = []"
  by (simp add: js_eval strengthErrors_def)

lemma ex_email_hash:
  "poseidonHashHexFromUtf8 (exampleServer st sb now key oc) (JStr ''user@example.com'') = Some ''0x10e9''"
  by (simp add: js_eval config_eval poseidonHashHexFromUtf8_def)

lemma ex_parahash:
  "poseidonHashHexFromUtf8 (exampleServer st sb now key oc) (JStr ''Str0ng!Pass'') = Some ''0x10e4''"
  by (simp add: js_eval config_eval poseidonHashHexFromUtf8_def)

lemma ex_leaf:
  "poseidonHashHexFromFieldHex (exampleServer st sb now key oc) ''0x10e9'' ''0x10e4'' = Some exampleLeaf"
  by (simp add: js_eval config_eval poseidonHashHexFromFieldHex_def exampleLeaf_def)

lemma ex_dec:
  "hexToDecString ''0x10e9'' = Some (Some ''4329'')"
  "hexToDecString ''0x10e4'' = Some (Some ''4324'')"
  "hexToDecString exampleLeaf = Some (Some ''145250'')"
  by (simp_all add: js_eval hexToDecString_def exampleLeaf_def)

lemma ex_padded: "to0xPadded32 exampleLeaf = Some exampleLeaf"
  by (simp add: js_eval to0xPadded32_def exampleLeaf_def)

lemma ex_abi: "abiBytes32 (JStr exampleLeaf) = Some 145250"
  by (simp add: js_eval abiBytes32_def exampleLeaf_def)

lemma ex_wallet:
  "wallet (exampleServer st sb now key oc) = key"
  "contract (exampleServer st sb now key oc) = (key \<noteq> None)"
  "provider (exampleServer st sb now key oc)"
  "CONTRACT_ADDR (exampleServer st sb now key oc)"
  by (simp_all add: config_eval)

lemma ex_minimalPackage:
  "\<exists>sig. minimalPackage (exampleServer st sb now key oc) ''0x10e9'' ''0x10e4'' sl now exampleLeaf exampleLeaf [] =
     Some (packageObject ''0x10e9'' (Some ''4329'') ''0x10e4'' (Some ''4324'') sl now
             exampleLeaf (Some ''145250'') exampleLeaf (Some ''145250'') []
             (map_option address key) sig)
     \<and> sig = (case key of None \<Rightarrow> None | Some w \<Rightarrow> Some (''signed:'' @ buildPayloadString
            [''leaf'' \<mapsto> JStr exampleLeaf, ''root'' \<mapsto> JStr exampleLeaf,
             ''email_hash'' \<mapsto> JStr ''0x10e9'', ''parahash'' \<mapsto> JStr ''0x10e4'',
             ''salt'' \<mapsto> JStr sl, ''timestamp'' \<mapsto> JStr now]))"
  if "key = None \<or> key = Some exampleWallet"
  using that
  by (auto simp: minimalPackage_def ex_wallet ex_dec signerAddress_def exampleWallet_def)

lemma registration_steps:
  assumes "truthy token" and "truthy pp" and "jwt_verify env token = Some pe"
    and "normalizeEmail (if truthy pe then pe else JStr []) = em"
    and "isEmail env em" and "strengthErrors pp = []"
    and "poseidonHashHexFromUtf8 env (JStr em) = Some eh"
    and "poseidonHashHexFromUtf8 env pp = Some ph"
    and "poseidonHashHexFromFieldHex env eh ph = Some lf"
    and "minimalPackage env eh ph (''0x'' @ bytesToHex (randomBytes16 env)) (toISOString env) lf lf [] = Some pkg0"
  shows "completeRegistrationHandler env token pp = anchorPackage env lf pkg0"
  using assms by (simp add: completeRegistrationHandler_def Let_def)

lemma ex_registration:
  assumes "key = None \<or> key = Some exampleWallet"
  shows "exampleRegistration st sb now key oc =
           anchorPackage (exampleServer st sb now key oc) exampleLeaf (examplePackage sb now key)"
proof -
  let ?env = "exampleServer st sb now key oc"
  have sl: "randomBytes16 ?env = sb" and ts: "toISOString ?env = now"
    by (simp_all add: exampleServer_def)
  from ex_minimalPackage [OF assms, of st sb now oc "''0x'' @ bytesToHex sb"]
  have mp: "minimalPackage ?env ''0x10e9'' ''0x10e4'' (''0x'' @ bytesToHex (randomBytes16 ?env))
              (toISOString ?env) exampleLeaf exampleLeaf [] = Some (examplePackage sb now key)"
    unfolding sl ts examplePackage_def by blast
  show ?thesis
    unfolding exampleRegistration_def
    by (rule registration_steps [OF _ _ ex_token ex_email ex_isEmail ex_strength
          ex_email_hash ex_parahash ex_leaf mp]) simp_all
qed

lemma ex_registration_no_wallet:
  "exampleRegistration st sb now None oc =
     RegOk ''Contract/wallet not configured; root not anchored. Set SEP_RPC, CONTRACT_ADDR, DEPLOYER_PRIVATE_KEY in .env for on-chain anchoring.''
       None (examplePackage sb now None)"
  by (simp add: ex_registration anchorPackage_def ex_wallet)

lemma ex_anchorRoot: "contract_anchorRoot (exampleServer st sb now key oc) r = oc"
  by (simp add: exampleServer_def)

lemma ex_registration_anchor_throws:
  "exampleRegistration st sb now (Some exampleWallet) AnchorThrows =
     RegError 500 ''Failed to anchor root on-chain.''"
  by (simp add: ex_registration anchorPackage_def ex_wallet ex_padded ex_anchorRoot)

lemma ex_rootToId:
  "contract_rootToId (exampleServer st sb now key oc) (Some exampleLeaf) = Some (unat (rootToId st 145250))"
  by (simp add: exampleServer_def ex_abi)

lemma ex_registration_anchored:
  "exampleRegistration st sb now (Some exampleWallet) exampleTx =
     RegOk ([CHR 0xE2, CHR 0x9C, CHR 0x85] @ '' Root successfully anchored on-chain. Tx Hash: 0xfeed'')
       (Some ''0xfeed'')
       (withUniqId (examplePackage sb now (Some exampleWallet))
          (uniqAssignedString (if rootToId st 145250 = 0 then None else Some (toDec (unat (rootToId st 145250))))))"
proof -
  note a = ex_anchorRoot
  have n: "toDec n = ''0'' \<longleftrightarrow> n = 0" for n
    by (subst toDec.simps) (auto simp: digitChar_def toDec_not_Nil nth_Cons' split: if_splits)
  have i: "assignedNumId (exampleServer st sb now key oc) (Some exampleLeaf) r
         = (if rootToId st 145250 = 0 then None else Some (toDec (unat (rootToId st 145250))))" for r key oc
    by (simp add: assignedNumId_def ex_rootToId Let_def n unat_eq_0)
  show ?thesis
    by (simp add: ex_registration anchorPackage_def ex_wallet ex_padded a i Let_def
        exampleTx_def awaitReceipt_def anchorTxHashOf_def anchorMessage_def)
qed

section \<open>Registration: hashes, leaf and root\<close>

lemma hashes_depend_on_libraries_only:
  assumes "keccak256 env1 = keccak256 env2" and "poseidon env1 = poseidon env2"
  shows "poseidonHashHexFromUtf8 env1 v = poseidonHashHexFromUtf8 env2 v"
    and "poseidonHashHexFromFieldHex env1 a b = poseidonHashHexFromFieldHex env2 a b"
  unfolding poseidonHashHexFromUtf8_def poseidonHashHexFromFieldHex_def assms by (rule refl)+

text \<open>
  C7. Two registration runs with the same hashing libraries, tokens that carry emails
  with the same normal form, and the same passphrase return packages with the same
  \<^verbatim>\<open>email_hash\<close>, \<^verbatim>\<open>parahash\<close>, \<^verbatim>\<open>leaf\<close> and \<^verbatim>\<open>root\<close>, whatever the
  two servers' salts, clocks, wallets and ledgers are: the salt and the time stamp take
  no part in the hashes or in the leaf.
\<close>

theorem hashes_leaf_root_independent_of_salt_and_time:
  assumes "keccak256 env1 = keccak256 env2" and "poseidon env1 = poseidon env2"
    and "jwt_verify env1 token1 = Some pe1" and "jwt_verify env2 token2 = Some pe2"
    and "normalizeEmail (if truthy pe1 then pe1 else JStr []) =
         normalizeEmail (if truthy pe2 then pe2 else JStr [])"
    and "completeRegistrationHandler env1 token1 pp = RegOk m1 h1 pkg1"
    and "completeRegistrationHandler env2 token2 pp = RegOk m2 h2 pkg2"
  shows "getProp pkg1 ''email_hash'' = getProp pkg2 ''email_hash''
       \<and> getProp pkg1 ''parahash'' = getProp pkg2 ''parahash''
       \<and> getProp pkg1 ''leaf'' = getProp pkg2 ''leaf''
       \<and> getProp pkg1 ''root'' = getProp pkg2 ''root''"
proof -
  note eq = hashes_depend_on_libraries_only [OF assms(1,2)]
  from assms(6) obtain pa eh1 ph1 lf1 where
    a: "jwt_verify env1 token1 = Some pa"
      "poseidonHashHexFromUtf8 env1 (JStr (normalizeEmail (if truthy pa then pa else JStr []))) = Some eh1"
      "poseidonHashHexFromUtf8 env1 pp = Some ph1"
      "poseidonHashHexFromFieldHex env1 eh1 ph1 = Some lf1"
      "getProp pkg1 ''email_hash'' = JStr eh1" "getProp pkg1 ''parahash'' = JStr ph1"
      "getProp pkg1 ''leaf'' = JStr lf1" "getProp pkg1 ''root'' = JStr lf1"
    by (rule registration_package)
  from assms(7) obtain pb eh2 ph2 lf2 where
    b: "jwt_verify env2 token2 = Some pb"
      "poseidonHashHexFromUtf8 env2 (JStr (normalizeEmail (if truthy pb then pb else JStr []))) = Some eh2"
      "poseidonHashHexFromUtf8 env2 pp = Some ph2"
      "poseidonHashHexFromFieldHex env2 eh2 ph2 = Some lf2"
      "getProp pkg2 ''email_hash'' = JStr eh2" "getProp pkg2 ''parahash'' = JStr ph2"
      "getProp pkg2 ''leaf'' = JStr lf2" "getProp pkg2 ''root'' = JStr lf2"
    by (rule registration_package)
  have pa: "pa = pe1" and pb: "pb = pe2"
    using a(1) b(1) assms(3,4) by simp_all
  have a2: "poseidonHashHexFromUtf8 env2
              (JStr (normalizeEmail (if truthy pe1 then pe1 else JStr []))) = Some eh1"
    using a(2) unfolding pa eq .
  have b2: "poseidonHashHexFromUtf8 env2
              (JStr (normalizeEmail (if truthy pe2 then pe2 else JStr []))) = Some eh2"
    using b(2) unfolding pb .
  have e: "eh1 = eh2"
    using a2 b2 unfolding assms(5) by simp
  have p: "ph1 = ph2"
    using a(3) b(3) by (simp add: eq)
  have l: "lf1 = lf2"
    using a(4) b(4) by (simp add: e p eq)
  show ?thesis
    by (simp add: a b e p l)
qed

theorem hashes_leaf_root_independent_of_salt_and_time_witness:
  "\<exists>m1 h1 pkg1 m2 h2 pkg2.
     exampleRegistration deployed exampleSalt exampleTime None exampleTx = RegOk m1 h1 pkg1
   \<and> exampleRegistration (exampleLedger 145250) (replicate 16 17) ''2025-06-30T12:00:00.000Z''
         (Some exampleWallet) exampleTx = RegOk m2 h2 pkg2
   \<and> getProp pkg1 ''salt'' \<noteq> getProp pkg2 ''salt''
   \<and> getProp pkg1 ''timestamp'' \<noteq> getProp pkg2 ''timestamp''
   \<and> getProp pkg1 ''email_hash'' = getProp pkg2 ''email_hash''
   \<and> getProp pkg1 ''parahash'' = getProp pkg2 ''parahash''
   \<and> getProp pkg1 ''leaf'' = getProp pkg2 ''leaf''
   \<and> getProp pkg1 ''root'' = getProp pkg2 ''root''"
proof -
  let ?e1 = "exampleServer deployed exampleSalt exampleTime None exampleTx"
  let ?e2 = "exampleServer (exampleLedger 145250) (replicate 16 17) ''2025-06-30T12:00:00.000Z''
               (Some exampleWallet) exampleTx"
  obtain m1 h1 pkg1 where r1: "completeRegistrationHandler ?e1 (JStr ''token-1'') (JStr ''Str0ng!Pass'') = RegOk m1 h1 pkg1"
    using ex_registration_no_wallet [of deployed exampleSalt exampleTime exampleTx]
    by (simp add: exampleRegistration_def)
  obtain m2 h2 pkg2 where r2: "completeRegistrationHandler ?e2 (JStr ''token-1'') (JStr ''Str0ng!Pass'') = RegOk m2 h2 pkg2"
    using ex_registration_anchored [of "exampleLedger 145250" "replicate 16 17" "''2025-06-30T12:00:00.000Z''"]
    by (simp add: exampleRegistration_def)
  have k: "keccak256 ?e1 = keccak256 ?e2" and p: "poseidon ?e1 = poseidon ?e2"
    by (simp_all add: exampleServer_def)
  have same: "getProp pkg1 ''email_hash'' = getProp pkg2 ''email_hash''
       \<and> getProp pkg1 ''parahash'' = getProp pkg2 ''parahash''
       \<and> getProp pkg1 ''leaf'' = getProp pkg2 ''leaf''
       \<and> getProp pkg1 ''root'' = getProp pkg2 ''root''"
    by (rule hashes_leaf_root_independent_of_salt_and_time [OF k p ex_token ex_token refl r1 r2])
  from r1 have s1: "getProp pkg1 ''salt'' = JStr (''0x'' @ bytesToHex (randomBytes16 ?e1))"
    and t1: "getProp pkg1 ''timestamp'' = JStr (toISOString ?e1)"
    by (blast elim: registration_package)+
  from r2 have s2: "getProp pkg2 ''salt'' = JStr (''0x'' @ bytesToHex (randomBytes16 ?e2))"
    and t2: "getProp pkg2 ''timestamp'' = JStr (toISOString ?e2)"
    by (blast elim: registration_package)+
  have ds: "getProp pkg1 ''salt'' \<noteq> getProp pkg2 ''salt''"
    unfolding s1 s2 by (simp add: exampleServer_def exampleSalt_def bytesToHex_def digitChar_def replicate_numeral)
  have dt: "getProp pkg1 ''timestamp'' \<noteq> getProp pkg2 ''timestamp''"
    unfolding t1 t2 by (simp add: exampleServer_def exampleTime_def)
  show ?thesis
    using r1 r2 ds dt same unfolding exampleRegistration_def by blast
qed

section \<open>Single leaf\<close>

lemma getProp_withUniqId:
  "getProp (withUniqId pkg u) f =
     (if f = ''uniq_id'' then (case u of None \<Rightarrow> getProp pkg ''uniq_id'' | Some s \<Rightarrow> JStr s)
      else getProp pkg f)"
  by (simp add: withUniqId_def getProp_def split: option.splits)

lemma verifyUser_empty_proof:
  "verifyUser (merkleVerify H) st uniqId lf [] = Inr True \<longleftrightarrow> 0 < uniqId \<and> uniqId \<le> nextId st \<and> lf = roots st uniqId"
  by (auto simp: verifyUser_def merkleVerify_def)

text \<open>
  C5. Every package that registration returns is the single-leaf case: its root is its
  leaf and its proof is the empty array. On the ledger, \<^verbatim>\<open>verifyUser\<close> with the empty
  proof answers true exactly when the id is an assigned one and the claimed leaf is
  equal to the root stored for it.
\<close>

theorem single_leaf_root_is_leaf_and_empty_proof_checks_equality:
  "(completeRegistrationHandler env token pp = RegOk m h pkg \<longrightarrow>
      getProp pkg ''root'' = getProp pkg ''leaf'' \<and> getProp pkg ''proof'' = JArr [])
   \<and> (verifyUser (merkleVerify H) st uniqId lf [] = Inr True \<longleftrightarrow>
        0 < uniqId \<and> uniqId \<le> nextId st \<and> lf = roots st uniqId)"
proof (intro conjI impI)
  assume r: "completeRegistrationHandler env token pp = RegOk m h pkg"
  from r obtain pe eh ph l where
    "jwt_verify env token = Some pe"
    "poseidonHashHexFromUtf8 env (JStr (normalizeEmail (if truthy pe then pe else JStr []))) = Some eh"
    "poseidonHashHexFromUtf8 env pp = Some ph"
    "poseidonHashHexFromFieldHex env eh ph = Some l"
    "getProp pkg ''email_hash'' = JStr eh" "getProp pkg ''parahash'' = JStr ph"
    "getProp pkg ''leaf'' = JStr l" "getProp pkg ''root'' = JStr l"
    "getProp pkg ''proof'' = JArr []"
    by (rule registration_package)
  then show "getProp pkg ''root'' = getProp pkg ''leaf''" and "getProp pkg ''proof'' = JArr []"
    by simp_all
next
  show "verifyUser (merkleVerify H) st uniqId lf [] = Inr True \<longleftrightarrow>
        0 < uniqId \<and> uniqId \<le> nextId st \<and> lf = roots st uniqId"
    by (rule verifyUser_empty_proof)
qed

theorem single_leaf_root_is_leaf_and_empty_proof_checks_equality_witness:
  "\<exists>m h pkg.
     exampleRegistration (exampleLedger 145250) exampleSalt exampleTime (Some exampleWallet) exampleTx
       = RegOk m h pkg
   \<and> getProp pkg ''leaf'' = JStr exampleLeaf
   \<and> getProp pkg ''root'' = JStr exampleLeaf
   \<and> getProp pkg ''proof'' = JArr []
   \<and> verifyUser (merkleVerify exampleHash) (exampleLedger 145250) 1 145250 [] = Inr True
   \<and> verifyUser (merkleVerify exampleHash) (exampleLedger 145250) 1 145251 [] = Inr False"
proof -
  let ?env = "exampleServer (exampleLedger 145250) exampleSalt exampleTime (Some exampleWallet) exampleTx"
  define pkg where "pkg = withUniqId (examplePackage exampleSalt exampleTime (Some exampleWallet))
      (uniqAssignedString (if rootToId (exampleLedger 145250) 145250 = 0 then None
                           else Some (toDec (unat (rootToId (exampleLedger 145250) 145250)))))"
  define m where "m = [CHR 0xE2, CHR 0x9C, CHR 0x85] @ '' Root successfully anchored on-chain. Tx Hash: 0xfeed''"
  define h where "h = Some ''0xfeed''"
  have r: "completeRegistrationHandler ?env (JStr ''token-1'') (JStr ''Str0ng!Pass'') = RegOk m h pkg"
    using ex_registration_anchored [of "exampleLedger 145250" exampleSalt exampleTime]
    by (simp only: exampleRegistration_def pkg_def m_def h_def)
  have l: "getProp pkg ''leaf'' = JStr exampleLeaf"
    by (simp add: pkg_def getProp_withUniqId examplePackage_def getProp_packageObject)
  note t = single_leaf_root_is_leaf_and_empty_proof_checks_equality
    [of ?env "JStr ''token-1''" "JStr ''Str0ng!Pass''" m h pkg]
  from t r have s: "getProp pkg ''root'' = getProp pkg ''leaf''" "getProp pkg ''proof'' = JArr []"
    by blast+
  from t [of exampleHash "exampleLedger 145250" 1 145250]
  have v1: "verifyUser (merkleVerify exampleHash) (exampleLedger 145250) 1 145250 [] = Inr True"
    by (simp add: exampleLedger_simps)
  have v2: "verifyUser (merkleVerify exampleHash) (exampleLedger 145250) 1 145251 [] = Inr False"
    by (simp add: verifyUser_def merkleVerify_def exampleLedger_simps)
  show ?thesis
    using r l s v1 v2 unfolding exampleRegistration_def by auto
qed

section \<open>Anchoring failure\<close>

lemma anchorPackage_throws:
  assumes "contract env" and "contract_anchorRoot env (to0xPadded32 rt) = AnchorThrows"
  shows "anchorPackage env rt pkg0 = RegError 500 ''Failed to anchor root on-chain.''"
  using assms by (simp add: anchorPackage_def contract_def)

text \<open>
  C3, as the code has it. When the server has a contract and the anchoring call throws,
  registration returns no package at all: whenever the earlier steps pass, the response
  is the status 500 with the text \<^verbatim>\<open>Failed to anchor root on-chain.\<close>, and in no case
  is it a success body. The source's own comment at that return says the package is
  returned with its signature.
\<close>

theorem anchoring_failure_returns_no_package:
  assumes "contract env" and "\<forall>r. contract_anchorRoot env r = AnchorThrows"
  shows "packageOf (completeRegistrationHandler env token pp) = None"
proof (cases "completeRegistrationHandler env token pp")
  case (RegError c e)
  then show ?thesis by (simp add: packageOf_def)
next
  case (RegOk m h pkg)
  then obtain lf pkg0 where "anchorPackage env lf pkg0 = RegOk m h pkg"
    by (blast elim: completeRegistrationHandler_RegOk)
  moreover have "anchorPackage env lf pkg0 = RegError 500 ''Failed to anchor root on-chain.''"
    using assms by (simp add: anchorPackage_throws)
  ultimately show ?thesis by simp
qed

theorem anchoring_failure_returns_no_package_witness:
  "contract (exampleServer deployed exampleSalt exampleTime (Some exampleWallet) AnchorThrows)
   \<and> exampleRegistration deployed exampleSalt exampleTime (Some exampleWallet) AnchorThrows =
       RegError 500 ''Failed to anchor root on-chain.''
   \<and> packageOf (exampleRegistration deployed exampleSalt exampleTime (Some exampleWallet) AnchorThrows) = None"
proof -
  let ?env = "exampleServer deployed exampleSalt exampleTime (Some exampleWallet) AnchorThrows"
  have c: "contract ?env"
    by (simp add: ex_wallet)
  have a: "\<forall>r. contract_anchorRoot ?env r = AnchorThrows"
    by (simp add: ex_anchorRoot)
  from anchoring_failure_returns_no_package [OF c a, of "JStr ''token-1''" "JStr ''Str0ng!Pass''"]
  have "packageOf (exampleRegistration deployed exampleSalt exampleTime (Some exampleWallet) AnchorThrows) = None"
    by (simp only: exampleRegistration_def)
  with c show ?thesis
    by (simp add: ex_registration_anchor_throws)
qed

section \<open>Login: the required fields\<close>

lemma loginHandler_missing:
  assumes "f \<in> set required" and "getProp pkg f = JNull \<or> getProp pkg f = JUndefined"
  shows "\<exists>g\<in>set required. loginHandler env (Some pkg) = LoginError 400 (''Missing package field: '' @ g)"
proof -
  let ?P = "\<lambda>f. getProp pkg f = JUndefined \<or> getProp pkg f = JNull"
  from assms have "\<exists>x\<in>set required. ?P x"
    by blast
  then obtain g where g: "find ?P required = Some g"
    by (cases "find ?P required") (auto simp: find_None_iff)
  then have "g \<in> set required"
    by (auto simp: find_Some_iff)
  with g show ?thesis
    by (auto simp: loginHandler_def)
qed

lemma loginHandler_present:
  assumes "\<forall>f\<in>set required. getProp pkg f \<noteq> JUndefined \<and> getProp pkg f \<noteq> JNull"
  shows "loginHandler env (Some pkg) = loginVerify env pkg"
proof -
  from assms have "find (\<lambda>f. getProp pkg f = JUndefined \<or> getProp pkg f = JNull) required = None"
    by (auto simp: find_None_iff)
  then show ?thesis
    by (simp add: loginHandler_def)
qed

text \<open>
  C10. A presented package in which one of the ten required fields is \<^verbatim>\<open>null\<close> or
  absent is rejected by the login handler with status 400 and the text
  \<^verbatim>\<open>Missing package field:\<close> followed by a required field; no session is issued. When
  the registering server has no wallet, the package it returns has \<^verbatim>\<open>signer\<close>,
  \<^verbatim>\<open>signature\<close> and \<^verbatim>\<open>uniq_id\<close> null; such a package, and any returned package
  whose \<^verbatim>\<open>uniq_id\<close> stayed null, is rejected in that way by every server.
\<close>

theorem login_rejects_null_or_absent_required_field:
  "(f \<in> set required \<and> (getProp pkg f = JNull \<or> getProp pkg f = JUndefined) \<longrightarrow>
      (\<exists>g\<in>set required. loginHandler env (Some pkg) = LoginError 400 (''Missing package field: '' @ g)))
   \<and> (completeRegistrationHandler env0 token pp = RegOk m h rpkg \<and> wallet env0 = None \<longrightarrow>
        getProp rpkg ''signer'' = JNull \<and> getProp rpkg ''signature'' = JNull
        \<and> getProp rpkg ''uniq_id'' = JNull)
   \<and> (completeRegistrationHandler env0 token pp = RegOk m h rpkg
        \<and> (wallet env0 = None \<or> getProp rpkg ''uniq_id'' = JNull) \<longrightarrow>
        (\<exists>g\<in>set required. loginHandler env (Some rpkg) = LoginError 400 (''Missing package field: '' @ g)))"
proof (intro conjI impI)
  assume "f \<in> set required \<and> (getProp pkg f = JNull \<or> getProp pkg f = JUndefined)"
  then show "\<exists>g\<in>set required. loginHandler env (Some pkg) = LoginError 400 (''Missing package field: '' @ g)"
    by (blast intro: loginHandler_missing)
next
  assume a: "completeRegistrationHandler env0 token pp = RegOk m h rpkg \<and> wallet env0 = None"
  then have r: "completeRegistrationHandler env0 token pp = RegOk m h rpkg" and w: "wallet env0 = None"
    by blast+
  from r obtain pe eh ph lf where
    "jwt_verify env0 token = Some pe"
    "poseidonHashHexFromUtf8 env0 (JStr (normalizeEmail (if truthy pe then pe else JStr []))) = Some eh"
    "poseidonHashHexFromUtf8 env0 pp = Some ph"
    "poseidonHashHexFromFieldHex env0 eh ph = Some lf"
    "getProp rpkg ''email_hash'' = JStr eh" "getProp rpkg ''parahash'' = JStr ph"
    "getProp rpkg ''leaf'' = JStr lf" "getProp rpkg ''root'' = JStr lf"
    "getProp rpkg ''proof'' = JArr []"
    "getProp rpkg ''salt'' = JStr (''0x'' @ bytesToHex (randomBytes16 env0))"
    "getProp rpkg ''timestamp'' = JStr (toISOString env0)"
    "wallet env0 = None \<longrightarrow> getProp rpkg ''signer'' = JNull"
    "wallet env0 = None \<longrightarrow> getProp rpkg ''signature'' = JNull"
    "wallet env0 = None \<longrightarrow> getProp rpkg ''uniq_id'' = JNull"
    by (rule registration_package)
  with w show "getProp rpkg ''signer'' = JNull" "getProp rpkg ''signature'' = JNull"
    "getProp rpkg ''uniq_id'' = JNull"
    by blast+
next
  assume a: "completeRegistrationHandler env0 token pp = RegOk m h rpkg
        \<and> (wallet env0 = None \<or> getProp rpkg ''uniq_id'' = JNull)"
  then have r: "completeRegistrationHandler env0 token pp = RegOk m h rpkg"
    by blast
  from r obtain pe eh ph lf where
    "jwt_verify env0 token = Some pe"
    "poseidonHashHexFromUtf8 env0 (JStr (normalizeEmail (if truthy pe then pe else JStr []))) = Some eh"
    "poseidonHashHexFromUtf8 env0 pp = Some ph"
    "poseidonHashHexFromFieldHex env0 eh ph = Some lf"
    "getProp rpkg ''email_hash'' = JStr eh" "getProp rpkg ''parahash'' = JStr ph"
    "getProp rpkg ''leaf'' = JStr lf" "getProp rpkg ''root'' = JStr lf"
    "getProp rpkg ''proof'' = JArr []"
    "getProp rpkg ''salt'' = JStr (''0x'' @ bytesToHex (randomBytes16 env0))"
    "getProp rpkg ''timestamp'' = JStr (toISOString env0)"
    "wallet env0 = None \<longrightarrow> getProp rpkg ''signer'' = JNull"
    "wallet env0 = None \<longrightarrow> getProp rpkg ''signature'' = JNull"
    "wallet env0 = None \<longrightarrow> getProp rpkg ''uniq_id'' = JNull"
    by (rule registration_package)
  with a have "getProp rpkg ''uniq_id'' = JNull"
    by blast
  moreover have "''uniq_id'' \<in> set required"
    by (simp add: required_def)
  ultimately show "\<exists>g\<in>set required. loginHandler env (Some rpkg) = LoginError 400 (''Missing package field: '' @ g)"
    by (blast intro: loginHandler_missing)
qed

theorem login_rejects_null_or_absent_required_field_witness:
  "''signature'' \<in> set required
   \<and> wallet (exampleServer deployed exampleSalt exampleTime None exampleTx) = None
   \<and> exampleRegistration deployed exampleSalt exampleTime None exampleTx =
       RegOk ''Contract/wallet not configured; root not anchored. Set SEP_RPC, CONTRACT_ADDR, DEPLOYER_PRIVATE_KEY in .env for on-chain anchoring.''
         None (examplePackage exampleSalt exampleTime None)
   \<and> getProp (examplePackage exampleSalt exampleTime None) ''signature'' = JNull
   \<and> getProp (examplePackage exampleSalt exampleTime None) ''signer'' = JNull
   \<and> getProp (examplePackage exampleSalt exampleTime None) ''uniq_id'' = JNull
   \<and> loginHandler (exampleServer (exampleLedger 145250) exampleSalt exampleTime (Some exampleWallet) exampleTx)
         (Some (examplePackage exampleSalt exampleTime None)) =
       LoginError 400 ''Missing package field: uniq_id''
   \<and> exampleRegistration deployed exampleSalt exampleTime (Some exampleWallet) exampleTx =
       RegOk ([CHR 0xE2, CHR 0x9C, CHR 0x85] @ '' Root successfully anchored on-chain. Tx Hash: 0xfeed'')
         (Some ''0xfeed'') (examplePackage exampleSalt exampleTime (Some exampleWallet))
   \<and> loginHandler (exampleServer (exampleLedger 145250) exampleSalt exampleTime (Some exampleWallet) exampleTx)
         (Some (examplePackage exampleSalt exampleTime (Some exampleWallet))) =
       LoginError 400 ''Missing package field: uniq_id''"
proof -
  let ?srv = "exampleServer (exampleLedger 145250) exampleSalt exampleTime (Some exampleWallet) exampleTx"
  let ?env0 = "exampleServer deployed exampleSalt exampleTime None exampleTx"
  let ?p0 = "examplePackage exampleSalt exampleTime None"
  let ?p1 = "examplePackage exampleSalt exampleTime (Some exampleWallet)"
  let ?note = "''Contract/wallet not configured; root not anchored. Set SEP_RPC, CONTRACT_ADDR, DEPLOYER_PRIVATE_KEY in .env for on-chain anchoring.''"
  have s: "''signature'' \<in> set required"
    by (simp add: required_def)
  have w: "wallet ?env0 = None"
    by (simp add: ex_wallet)
  have r0: "completeRegistrationHandler ?env0 (JStr ''token-1'') (JStr ''Str0ng!Pass'') = RegOk ?note None ?p0"
    using ex_registration_no_wallet [of deployed exampleSalt exampleTime exampleTx]
    by (simp only: exampleRegistration_def)
  note t = login_rejects_null_or_absent_required_field
    [of "''signature''" ?p0 ?srv ?env0 "JStr ''token-1''" "JStr ''Str0ng!Pass''" ?note None ?p0]
  from t r0 w have nulls: "getProp ?p0 ''signer'' = JNull" "getProp ?p0 ''signature'' = JNull"
    "getProp ?p0 ''uniq_id'' = JNull"
    by blast+
  have l0: "loginHandler ?srv (Some ?p0) = LoginError 400 ''Missing package field: uniq_id''"
    by (simp add: loginHandler_def required_def examplePackage_def getProp_packageObject)
  have z: "rootToId deployed 145250 = 0"
    by (simp add: deployed_def)
  have r1: "exampleRegistration deployed exampleSalt exampleTime (Some exampleWallet) exampleTx =
       RegOk ([CHR 0xE2, CHR 0x9C, CHR 0x85] @ '' Root successfully anchored on-chain. Tx Hash: 0xfeed'')
         (Some ''0xfeed'') ?p1"
    by (simp add: ex_registration_anchored z uniqAssignedString_def withUniqId_def)
  have l1: "loginHandler ?srv (Some ?p1) = LoginError 400 ''Missing package field: uniq_id''"
    by (simp add: loginHandler_def required_def examplePackage_def getProp_packageObject)
  show ?thesis
    using s w r0 nulls l0 r1 l1 by (simp only: exampleRegistration_def simp_thms)
qed

section \<open>Login: signature and ledger\<close>

lemma getProp_fun_upd:
  "getProp (obj(k \<mapsto> v)) k' = (if k' = k then v else getProp obj k')"
  by (simp add: getProp_def)

lemma buildPayloadString_literal:
  "buildPayloadString
     [''leaf'' \<mapsto> l, ''root'' \<mapsto> r, ''email_hash'' \<mapsto> e, ''parahash'' \<mapsto> p,
      ''salt'' \<mapsto> s, ''timestamp'' \<mapsto> t] =
   join ''|''
     (if truthy r
      then [[], toLowerCase (strOrEmpty e), toLowerCase (strOrEmpty p), toLowerCase (strOrEmpty s),
            strOrEmpty t, toLowerCase (strOrEmpty r)]
      else [[], toLowerCase (strOrEmpty e), toLowerCase (strOrEmpty p), toLowerCase (strOrEmpty s),
            strOrEmpty t])"
  by (cases r) (simp_all add: buildPayloadString_def getProp_def strOrEmpty_def Let_def)

lemma loginCanonical_ignores_leaf: "loginCanonical (pkg(''leaf'' \<mapsto> v)) = loginCanonical pkg"
  by (simp add: loginCanonical_def buildPayloadString_literal getProp_fun_upd)

text \<open>
  C1, as the code has it. \<^verbatim>\<open>buildPayloadString\<close> never reads the \<^verbatim>\<open>leaf\<close> property
  that both handlers pass to it, so the canonical string that login rebuilds, and with it
  the outcome of the signature check, is the same whatever the package's leaf is: a
  package whose leaf was altered after signing passes the signature check exactly when
  the untouched package does.
\<close>

theorem signature_check_ignores_leaf:
  "loginCanonical (pkg(''leaf'' \<mapsto> v)) = loginCanonical pkg
   \<and> signatureCheck env (pkg(''leaf'' \<mapsto> v)) = signatureCheck env pkg"
proof -
  have sg: "getProp (pkg(''leaf'' \<mapsto> v)) ''signature'' = getProp pkg ''signature''"
    and sn: "getProp (pkg(''leaf'' \<mapsto> v)) ''signer'' = getProp pkg ''signer''"
    by (simp_all add: getProp_fun_upd)
  show ?thesis
    unfolding signatureCheck_def loginCanonical_ignores_leaf sg sn by simp
qed

lemma ex_package_fields:
  "getProp (examplePackage sb now key) ''email_hash'' = JStr ''0x10e9''"
  "getProp (examplePackage sb now key) ''parahash'' = JStr ''0x10e4''"
  "getProp (examplePackage sb now key) ''salt'' = JStr (''0x'' @ bytesToHex sb)"
  "getProp (examplePackage sb now key) ''timestamp'' = JStr now"
  "getProp (examplePackage sb now key) ''root'' = JStr exampleLeaf"
  "getProp (examplePackage sb now key) ''leaf'' = JStr exampleLeaf"
  "getProp (examplePackage sb now key) ''proof'' = JArr []"
  "getProp (examplePackage sb now (Some exampleWallet)) ''signer'' = JStr ''0xAbC1''"
  "getProp (examplePackage sb now (Some exampleWallet)) ''signature'' =
     JStr (''signed:'' @ buildPayloadString
            [''leaf'' \<mapsto> JStr exampleLeaf, ''root'' \<mapsto> JStr exampleLeaf,
             ''email_hash'' \<mapsto> JStr ''0x10e9'', ''parahash'' \<mapsto> JStr ''0x10e4'',
             ''salt'' \<mapsto> JStr (''0x'' @ bytesToHex sb), ''timestamp'' \<mapsto> JStr now])"
  by (simp_all add: examplePackage_def getProp_packageObject exampleWallet_def optStr_def)

lemma ex_signatureCheck:
  "signatureCheck (exampleServer st sb' now' key oc)
     ((examplePackage sb now (Some exampleWallet))(''uniq_id'' \<mapsto> u)) = None"
proof -
  have c: "loginCanonical ((examplePackage sb now (Some exampleWallet))(''uniq_id'' \<mapsto> u)) =
           buildPayloadString
            [''leaf'' \<mapsto> JStr exampleLeaf, ''root'' \<mapsto> JStr exampleLeaf,
             ''email_hash'' \<mapsto> JStr ''0x10e9'', ''parahash'' \<mapsto> JStr ''0x10e4'',
             ''salt'' \<mapsto> JStr (''0x'' @ bytesToHex sb), ''timestamp'' \<mapsto> JStr now]"
    by (simp add: loginCanonical_def getProp_fun_upd ex_package_fields)
  have v: "verifyMessage (exampleServer st sb' now' key oc) m (JStr (''signed:'' @ m)) = Some ''0xabc1''" for m
    by (simp add: exampleServer_def)
  have vm: "verifyMessage (exampleServer st sb' now' key oc)
              (loginCanonical ((examplePackage sb now (Some exampleWallet))(''uniq_id'' \<mapsto> u)))
              (getProp ((examplePackage sb now (Some exampleWallet))(''uniq_id'' \<mapsto> u)) ''signature'')
            = Some ''0xabc1''"
    unfolding c getProp_fun_upd ex_package_fields by (simp only: v list.inject char.inject simp_thms if_False)
  have l: "toLowerCase ''0xabc1'' = toLowerCase ''0xAbC1''"
    by (simp add: js_eval)
  show ?thesis
    unfolding signatureCheck_def vm
    by (simp add: getProp_fun_upd ex_package_fields l)
qed

lemma Number_digits:
  "Number ''000001'' = SafeInteger 1" "Number ''000002'' = SafeInteger 2"
  by (simp_all add: Number_def decimalValue_def)

lemma ex_login_ok:
  "loginHandler (exampleServer (exampleLedger 145250) sb' now' key oc)
     (Some ((examplePackage sb now (Some exampleWallet))(''uniq_id'' \<mapsto> JStr ''UNIQ-000001''))) =
   LoginOk ''Login verified on-chain.'' (JStr ''UNIQ-000001'') (SafeInteger 1) ''session:UNIQ-000001''"
proof -
  let ?pkg = "(examplePackage sb now (Some exampleWallet))(''uniq_id'' \<mapsto> JStr ''UNIQ-000001'')"
  let ?env = "exampleServer (exampleLedger 145250) sb' now' key oc"
  have p: "loginHandler ?env (Some ?pkg) = loginVerify ?env ?pkg"
    by (rule loginHandler_present) (simp add: required_def getProp_fun_upd ex_package_fields)
  have m: "matchUniqId (strOrEmpty (getProp ?pkg ''uniq_id'')) = Some ''000001''"
    by (simp add: getProp_fun_upd js_eval matchUniqId_def)
  have v: "readContract_verifyUser ?env (SafeInteger 1) (JStr exampleLeaf) [] = Some True"
    by (simp add: exampleServer_def ledger_verifyUser_def ex_abi verifyUser_def merkleVerify_def
        exampleLedger_simps)
  have s: "jwt_sign ?env (JStr ''UNIQ-000001'') (SafeInteger 1) = ''session:UNIQ-000001''"
    by (simp add: exampleServer_def)
  show ?thesis
    unfolding p loginVerify_def ex_signatureCheck m Number_digits Let_def
    by (simp add: Number_digits ex_wallet getProp_fun_upd ex_package_fields v s del: One_nat_def)
qed

theorem signature_check_ignores_leaf_witness:
  "signatureCheck (exampleServer (exampleLedger 145250) exampleSalt exampleTime (Some exampleWallet) exampleTx)
     ((examplePackage exampleSalt exampleTime (Some exampleWallet))
        (''uniq_id'' \<mapsto> JStr ''UNIQ-000001'',
         ''leaf'' \<mapsto> JStr ''0x0000000000000000000000000000000000000000000000000000000000000bad'')) = None
   \<and> loginHandler (exampleServer (exampleLedger 145250) exampleSalt exampleTime (Some exampleWallet) exampleTx)
       (Some ((examplePackage exampleSalt exampleTime (Some exampleWallet))
          (''uniq_id'' \<mapsto> JStr ''UNIQ-000001'',
           ''leaf'' \<mapsto> JStr ''0x0000000000000000000000000000000000000000000000000000000000000bad''))) =
     LoginError 400 ''Proof not valid against on-chain root.''"
proof -
  let ?env = "exampleServer (exampleLedger 145250) exampleSalt exampleTime (Some exampleWallet) exampleTx"
  let ?good = "(examplePackage exampleSalt exampleTime (Some exampleWallet))(''uniq_id'' \<mapsto> JStr ''UNIQ-000001'')"
  let ?bad = "JStr ''0x0000000000000000000000000000000000000000000000000000000000000bad''"
  let ?pkg = "?good(''leaf'' \<mapsto> ?bad)"
  have sc: "signatureCheck ?env ?pkg = None"
    using signature_check_ignores_leaf [of ?good ?bad ?env] ex_signatureCheck by simp
  have p: "loginHandler ?env (Some ?pkg) = loginVerify ?env ?pkg"
    by (rule loginHandler_present) (simp add: required_def getProp_fun_upd ex_package_fields)
  have m: "matchUniqId (strOrEmpty (getProp ?pkg ''uniq_id'')) = Some ''000001''"
    by (simp add: getProp_fun_upd js_eval matchUniqId_def)
  have a: "abiBytes32 ?bad = Some 2989"
    by (simp add: js_eval abiBytes32_def)
  have v: "readContract_verifyUser ?env (SafeInteger 1) ?bad [] = Some False"
    by (simp add: exampleServer_def ledger_verifyUser_def a verifyUser_def merkleVerify_def
        exampleLedger_simps)
  have l: "loginHandler ?env (Some ?pkg) = LoginError 400 ''Proof not valid against on-chain root.''"
    unfolding p loginVerify_def sc m Let_def
    by (simp add: Number_digits ex_wallet getProp_fun_upd ex_package_fields v del: One_nat_def)
  show ?thesis
    using sc l by (simp only: simp_thms)
qed

section \<open>Ids outside the assigned range\<close>

lemma Number_SafeInteger: "Number ds = SafeInteger n \<Longrightarrow> int n < 9007199254740992"
  by (auto simp: Number_def Let_def split: if_splits)

lemma of_nat_in_range_iff:
  assumes "int n < 9007199254740992"
  shows "(0 < (of_nat n :: uint256) \<and> (of_nat n :: uint256) \<le> nextId st) \<longleftrightarrow>
         (0 < n \<and> n \<le> unat (nextId st))"
proof -
  have "n < 2 ^ 256"
    using assms by simp
  then have u: "unat (of_nat n :: uint256) = n"
    by (simp add: unat_of_nat)
  show ?thesis
    by (simp add: word_less_nat_alt word_le_nat_alt u)
qed

lemma ledger_verifyUser_outside:
  assumes "\<forall>n. num = SafeInteger n \<longrightarrow> int n < 9007199254740992 \<and> (n = 0 \<or> unat (nextId st) < n)"
  shows "ledger_verifyUser V st num lf pf = None"
proof (cases num)
  case (LargeDouble n)
  then show ?thesis by (simp add: ledger_verifyUser_def)
next
  case (SafeInteger n)
  with assms have b: "int n < 9007199254740992" and o: "n = 0 \<or> unat (nextId st) < n"
    by blast+
  have "\<not> (0 < (of_nat n :: uint256) \<and> (of_nat n :: uint256) \<le> nextId st)"
    using o by (auto simp: of_nat_in_range_iff [OF b])
  then have "verifyUser V st (of_nat n) l p = Inl (Revert ''invalid uniqId'')" for l p
    by (rule verifyUser_out_of_range)
  then show ?thesis
    by (simp add: ledger_verifyUser_def SafeInteger split: option.splits)
qed

lemma signatureCheck_Some:
  "signatureCheck env pkg = Some x \<Longrightarrow> \<exists>code msg. x = LoginError code msg"
  by (auto simp: signatureCheck_def split: option.splits if_splits)

lemma loginVerify_no_session:
  assumes "matchUniqId (strOrEmpty (getProp pkg ''uniq_id'')) = Some ds"
    and "\<And>lf pf. readContract_verifyUser env (Number ds) lf pf = None"
  shows "\<exists>code msg. loginVerify env pkg = LoginError code msg"
  using assms signatureCheck_Some [of env pkg]
  by (auto simp: loginVerify_def Let_def split: option.splits)

lemma loginHandler_cases:
  "(\<exists>g. loginHandler env (Some pkg) = LoginError 400 (''Missing package field: '' @ g))
   \<or> loginHandler env (Some pkg) = loginVerify env pkg"
  by (auto simp: loginHandler_def split: option.splits)

text \<open>
  C6. An id outside \<open>1 \<le> id \<le> nextId\<close> makes the ledger's \<^verbatim>\<open>verifyUser\<close> revert with
  \<^verbatim>\<open>invalid uniqId\<close>, whatever the leaf, the proof and the library's verifier are: the
  range check comes before the proof check. A login whose package names such an id (zero, or beyond
  the highest assigned id) against that ledger ends in an error response and never in a
  session; so does one whose id is too large to be a safe integer.
\<close>

theorem verification_fails_closed_outside_range:
  "(\<not> (0 < uniqId \<and> uniqId \<le> nextId st) \<longrightarrow>
      verifyUser V st uniqId lf pf = Inl (Revert ''invalid uniqId''))
   \<and> (readContract_verifyUser env = ledger_verifyUser V st
        \<and> matchUniqId (strOrEmpty (getProp pkg ''uniq_id'')) = Some ds
        \<and> (\<forall>n. Number ds = SafeInteger n \<longrightarrow> n = 0 \<or> unat (nextId st) < n) \<longrightarrow>
        (\<exists>code msg. loginHandler env (Some pkg) = LoginError code msg))"
proof (intro conjI impI)
  assume "\<not> (0 < uniqId \<and> uniqId \<le> nextId st)"
  then show "verifyUser V st uniqId lf pf = Inl (Revert ''invalid uniqId'')"
    by (rule verifyUser_out_of_range)
next
  assume a: "readContract_verifyUser env = ledger_verifyUser V st
        \<and> matchUniqId (strOrEmpty (getProp pkg ''uniq_id'')) = Some ds
        \<and> (\<forall>n. Number ds = SafeInteger n \<longrightarrow> n = 0 \<or> unat (nextId st) < n)"
  then have link: "readContract_verifyUser env = ledger_verifyUser V st"
    and m: "matchUniqId (strOrEmpty (getProp pkg ''uniq_id'')) = Some ds"
    and o: "\<forall>n. Number ds = SafeInteger n \<longrightarrow> n = 0 \<or> unat (nextId st) < n"
    by blast+
  have "\<forall>n. Number ds = SafeInteger n \<longrightarrow> int n < 9007199254740992 \<and> (n = 0 \<or> unat (nextId st) < n)"
    using o Number_SafeInteger by blast
  then have "readContract_verifyUser env (Number ds) l p = None" for l p
    unfolding link by (rule ledger_verifyUser_outside)
  then have "\<exists>code msg. loginVerify env pkg = LoginError code msg"
    by (rule loginVerify_no_session [OF m])
  with loginHandler_cases [of env pkg]
  show "\<exists>code msg. loginHandler env (Some pkg) = LoginError code msg"
    by auto
qed

theorem verification_fails_closed_outside_range_witness:
  "verifyUser (merkleVerify exampleHash) (exampleLedger 145250) 2 145250 [] = Inl (Revert ''invalid uniqId'')
   \<and> verifyUser (merkleVerify exampleHash) (exampleLedger 145250) 0 145250 [] = Inl (Revert ''invalid uniqId'')
   \<and> loginHandler (exampleServer (exampleLedger 145250) exampleSalt exampleTime (Some exampleWallet) exampleTx)
       (Some ((examplePackage exampleSalt exampleTime (Some exampleWallet))(''uniq_id'' \<mapsto> JStr ''UNIQ-000002''))) =
     LoginError 500 ''On-chain verification failed.''
   \<and> loginHandler (exampleServer (exampleLedger 145250) exampleSalt exampleTime (Some exampleWallet) exampleTx)
       (Some ((examplePackage exampleSalt exampleTime (Some exampleWallet))(''uniq_id'' \<mapsto> JStr ''UNIQ-000001''))) =
     LoginOk ''Login verified on-chain.'' (JStr ''UNIQ-000001'') (SafeInteger 1) ''session:UNIQ-000001''"
proof -
  let ?st = "exampleLedger 145250"
  let ?env = "exampleServer ?st exampleSalt exampleTime (Some exampleWallet) exampleTx"
  let ?pkg = "(examplePackage exampleSalt exampleTime (Some exampleWallet))(''uniq_id'' \<mapsto> JStr ''UNIQ-000002'')"
  note t = verification_fails_closed_outside_range
    [of _ ?st "merkleVerify exampleHash" 145250 "[]" ?env ?pkg "''000002''"]
  have r2: "\<not> (0 < (2 :: uint256) \<and> 2 \<le> nextId ?st)" and r0: "\<not> (0 < (0 :: uint256) \<and> 0 \<le> nextId ?st)"
    by (simp_all add: exampleLedger_simps word_le_nat_alt)
  from t [of 2] r2 have v2: "verifyUser (merkleVerify exampleHash) ?st 2 145250 [] = Inl (Revert ''invalid uniqId'')"
    by blast
  from t [of 0] r0 have v0: "verifyUser (merkleVerify exampleHash) ?st 0 145250 [] = Inl (Revert ''invalid uniqId'')"
    by blast
  have link: "readContract_verifyUser ?env = ledger_verifyUser (merkleVerify exampleHash) ?st"
    by (simp add: exampleServer_def)
  have m: "matchUniqId (strOrEmpty (getProp ?pkg ''uniq_id'')) = Some ''000002''"
    by (simp add: getProp_fun_upd js_eval matchUniqId_def)
  have o: "\<forall>n. Number ''000002'' = SafeInteger n \<longrightarrow> n = 0 \<or> unat (nextId ?st) < n"
    by (simp add: Number_digits exampleLedger_simps del: One_nat_def)
  from t [of 2] link m o have e: "\<exists>code msg. loginHandler ?env (Some ?pkg) = LoginError code msg"
    by blast
  have p: "loginHandler ?env (Some ?pkg) = loginVerify ?env ?pkg"
    by (rule loginHandler_present) (simp add: required_def getProp_fun_upd ex_package_fields)
  have v: "readContract_verifyUser ?env (SafeInteger 2) (JStr exampleLeaf) [] = None"
    by (simp add: exampleServer_def ledger_verifyUser_def ex_abi verifyUser_def exampleLedger_simps
        word_le_nat_alt)
  have l: "loginHandler ?env (Some ?pkg) = LoginError 500 ''On-chain verification failed.''"
    unfolding p loginVerify_def ex_signatureCheck m Let_def
    by (simp add: Number_digits ex_wallet getProp_fun_upd ex_package_fields v del: One_nat_def)
  show ?thesis
    using v2 v0 l e ex_login_ok [of exampleSalt exampleTime "Some exampleWallet" exampleTx exampleSalt exampleTime]
    by (simp only: simp_thms)
qed

section \<open>The display form of the id\<close>

lemma digitChar_digit:
  assumes "d < 10"
  shows "isDigit (digitChar d)" and "of_char (digitChar d) - 48 = d"
proof -
  from assms have "d \<in> {0, 1, 2, 3, 4, 5, 6, 7, 8, 9}"
    by auto
  then show "isDigit (digitChar d)" and "of_char (digitChar d) - 48 = d"
    by (auto simp: digitChar_def isDigit_def)
qed

lemma toDec_digits: "list_all isDigit (toDec n)"
proof (induction n rule: toDec.induct)
  case (1 n)
  show ?case
  proof (cases "n < 10")
    case True
    then show ?thesis
      by (subst toDec.simps) (simp add: digitChar_digit)
  next
    case False
    with 1 show ?thesis
      by (subst toDec.simps) (simp add: digitChar_digit)
  qed
qed

lemma decimalValue_append: "decimalValue a (xs @ ys) = decimalValue (decimalValue a xs) ys"
  by (simp add: decimalValue_def)

lemma decimalValue_toDec: "decimalValue 0 (toDec n) = n"
proof (induction n rule: toDec.induct)
  case (1 n)
  show ?case
  proof (cases "n < 10")
    case True
    then show ?thesis
      by (subst toDec.simps) (simp add: decimalValue_def digitChar_digit)
  next
    case False
    then have "decimalValue 0 (toDec (n div 10)) = n div 10"
      using 1 by simp
    with False show ?thesis
      by (subst toDec.simps) (simp add: decimalValue_append, simp add: decimalValue_def digitChar_digit)
  qed
qed

lemma decimalValue_zeros: "decimalValue 0 (replicate k CHR ''0'' @ ds) = decimalValue 0 ds"
  by (induction k) (simp_all add: decimalValue_def)

lemma Number_padded:
  "Number (padStart (toDec n) 6 CHR ''0'') =
     (if int n < 9007199254740992 then SafeInteger n else LargeDouble n)"
proof -
  have "decimalValue 0 (padStart (toDec n) 6 CHR ''0'') = n"
    by (simp add: padStart_def decimalValue_zeros decimalValue_toDec)
  then show ?thesis
    by (simp add: Number_def Let_def)
qed

lemma matchUniqId_padded:
  "matchUniqId (''UNIQ-'' @ padStart (toDec n) 6 CHR ''0'') = Some (padStart (toDec n) 6 CHR ''0'')"
proof -
  have "list_all isDigit (replicate k CHR ''0'')" for k
    by (induction k) (simp_all add: isDigit_def)
  then have "list_all isDigit (padStart (toDec n) 6 CHR ''0'')"
    by (simp add: padStart_def toDec_digits)
  moreover have "padStart (toDec n) 6 CHR ''0'' \<noteq> []"
    by (simp add: padStart_def toDec_not_Nil)
  ultimately show ?thesis
    by (simp add: matchUniqId_def startsWith_def)
qed

lemma length_toDec: "n < 10 ^ k \<Longrightarrow> 0 < k \<Longrightarrow> length (toDec n) \<le> k"
proof (induction k arbitrary: n)
  case 0
  then show ?case by simp
next
  case (Suc k)
  show ?case
  proof (cases "n < 10")
    case True
    then show ?thesis
      by (subst toDec.simps) simp
  next
    case False
    then have k: "0 < k"
      using Suc.prems by (cases k) auto
    have "n div 10 < 10 ^ k"
      using Suc.prems by (simp add: less_mult_imp_div_less mult.commute)
    from Suc.IH [OF this k] False show ?thesis
      by (subst toDec.simps) simp
  qed
qed

lemma length_padded:
  assumes "n < 1000000"
  shows "length (padStart (toDec n) 6 CHR ''0'') = 6"
proof -
  have "length (toDec n) \<le> 6"
    using length_toDec [of n 6] assms by simp
  then show ?thesis
    by (simp add: padStart_def)
qed

lemma toDec_eq_zero: "toDec n = ''0'' \<longleftrightarrow> n = 0"
  by (subst toDec.simps) (auto simp: digitChar_def toDec_not_Nil nth_Cons' split: if_splits)

lemma anchorPackage_rootToId:
  assumes "anchorPackage env rt pkg0 = RegOk m h pkg" and "contract env"
    and "\<forall>r. contract_rootToId env r = Some bn" and "bn \<noteq> 0"
  shows "pkg = pkg0(''uniq_id'' \<mapsto> JStr (''UNIQ-'' @ padStart (toDec bn) 6 CHR ''0''))"
proof -
  have i: "assignedNumId env r rcpt = Some (toDec bn)" for r rcpt
    using assms(3,4) by (simp add: assignedNumId_def Let_def toDec_eq_zero)
  from assms(1,2) show ?thesis
    by (auto simp: anchorPackage_def contract_def Let_def i uniqAssignedString_def toDec_not_Nil
        withUniqId_def split: anchorOutcome.splits option.splits)
qed

text \<open>
  C9, as the code has it. In a package that registration returns, \<^verbatim>\<open>uniq_id\<close> is
  \<^verbatim>\<open>null\<close> or the text \<^verbatim>\<open>UNIQ-\<close> followed by the decimal id padded with zeros on
  the left to at least six digits (exactly six for an id below 1000000); when the
  contract's \<^verbatim>\<open>rootToId\<close> answers with a non-zero id, it is that id. The login path
  reads the digits after \<^verbatim>\<open>UNIQ-\<close> and gets the same number back (as a safe integer
  below \<open>2^53\<close>).
\<close>

theorem uniq_id_display_form:
  "(completeRegistrationHandler env token pp = RegOk m h pkg \<longrightarrow>
       getProp pkg ''uniq_id'' = JNull
     \<or> (\<exists>k. getProp pkg ''uniq_id'' = JStr (''UNIQ-'' @ padStart (toDec k) 6 CHR ''0'')))
   \<and> (completeRegistrationHandler env token pp = RegOk m h pkg \<and> contract env
        \<and> (\<forall>r. contract_rootToId env r = Some bn) \<and> bn \<noteq> 0 \<longrightarrow>
       getProp pkg ''uniq_id'' = JStr (''UNIQ-'' @ padStart (toDec bn) 6 CHR ''0''))
   \<and> matchUniqId (''UNIQ-'' @ padStart (toDec n) 6 CHR ''0'') = Some (padStart (toDec n) 6 CHR ''0'')
   \<and> Number (padStart (toDec n) 6 CHR ''0'') =
       (if int n < 9007199254740992 then SafeInteger n else LargeDouble n)
   \<and> (n < 1000000 \<longrightarrow> length (padStart (toDec n) 6 CHR ''0'') = 6)"
proof (intro conjI impI)
  assume r: "completeRegistrationHandler env token pp = RegOk m h pkg"
  from r obtain pe eh ph lf where
    "jwt_verify env token = Some pe"
    "poseidonHashHexFromUtf8 env (JStr (normalizeEmail (if truthy pe then pe else JStr []))) = Some eh"
    "poseidonHashHexFromUtf8 env pp = Some ph"
    "poseidonHashHexFromFieldHex env eh ph = Some lf"
    "getProp pkg ''email_hash'' = JStr eh" "getProp pkg ''parahash'' = JStr ph"
    "getProp pkg ''leaf'' = JStr lf" "getProp pkg ''root'' = JStr lf"
    "getProp pkg ''proof'' = JArr []"
    "getProp pkg ''salt'' = JStr (''0x'' @ bytesToHex (randomBytes16 env))"
    "getProp pkg ''timestamp'' = JStr (toISOString env)"
    "wallet env = None \<longrightarrow> getProp pkg ''signer'' = JNull"
    "wallet env = None \<longrightarrow> getProp pkg ''signature'' = JNull"
    "wallet env = None \<longrightarrow> getProp pkg ''uniq_id'' = JNull"
    "getProp pkg ''uniq_id'' = JNull
       \<or> (\<exists>k. getProp pkg ''uniq_id'' = JStr (''UNIQ-'' @ padStart (toDec k) 6 CHR ''0''))"
    by (rule registration_package)
  then show "getProp pkg ''uniq_id'' = JNull
     \<or> (\<exists>k. getProp pkg ''uniq_id'' = JStr (''UNIQ-'' @ padStart (toDec k) 6 CHR ''0''))"
    by blast
next
  assume a: "completeRegistrationHandler env token pp = RegOk m h pkg \<and> contract env
        \<and> (\<forall>r. contract_rootToId env r = Some bn) \<and> bn \<noteq> 0"
  then have r: "completeRegistrationHandler env token pp = RegOk m h pkg"
    by blast
  then obtain lf pkg0 where
    ap: "anchorPackage env lf pkg0 = RegOk m h pkg"
    by (blast elim: completeRegistrationHandler_RegOk)
  from a have "pkg = pkg0(''uniq_id'' \<mapsto> JStr (''UNIQ-'' @ padStart (toDec bn) 6 CHR ''0''))"
    by (intro anchorPackage_rootToId [OF ap]) blast+
  then show "getProp pkg ''uniq_id'' = JStr (''UNIQ-'' @ padStart (toDec bn) 6 CHR ''0'')"
    by (simp add: getProp_fun_upd)
next
  show "matchUniqId (''UNIQ-'' @ padStart (toDec n) 6 CHR ''0'') = Some (padStart (toDec n) 6 CHR ''0'')"
    by (rule matchUniqId_padded)
  show "Number (padStart (toDec n) 6 CHR ''0'') =
       (if int n < 9007199254740992 then SafeInteger n else LargeDouble n)"
    by (rule Number_padded)
next
  assume "n < 1000000"
  then show "length (padStart (toDec n) 6 CHR ''0'') = 6"
    by (rule length_padded)
qed

lemma ex_rootToId_one: "rootToId (exampleLedger 145250) 145250 = 1"
  by (simp add: exampleLedger_def anchorRoot_def deployed_def)

lemma ex_registration_uniq_id:
  "exampleRegistration (exampleLedger 145250) sb now (Some exampleWallet) exampleTx =
     RegOk ([CHR 0xE2, CHR 0x9C, CHR 0x85] @ '' Root successfully anchored on-chain. Tx Hash: 0xfeed'')
       (Some ''0xfeed'')
       ((examplePackage sb now (Some exampleWallet))(''uniq_id'' \<mapsto> JStr ''UNIQ-000001''))"
  by (simp add: ex_registration_anchored ex_rootToId_one uniqAssignedString_def withUniqId_def
      toDec.simps digitChar_def padStart_def replicate_numeral)

theorem uniq_id_display_form_witness:
  "exampleRegistration (exampleLedger 145250) exampleSalt exampleTime (Some exampleWallet) exampleTx =
     RegOk ([CHR 0xE2, CHR 0x9C, CHR 0x85] @ '' Root successfully anchored on-chain. Tx Hash: 0xfeed'')
       (Some ''0xfeed'')
       ((examplePackage exampleSalt exampleTime (Some exampleWallet))(''uniq_id'' \<mapsto> JStr ''UNIQ-000001''))
   \<and> matchUniqId ''UNIQ-000123'' = Some ''000123''
   \<and> Number ''000123'' = SafeInteger 123
   \<and> length ''000123'' = 6
   \<and> matchUniqId ''UNIQ-1234567'' = Some ''1234567''
   \<and> Number ''1234567'' = SafeInteger 1234567"
proof -
  have d: "padStart (toDec 123) 6 CHR ''0'' = ''000123''"
    "padStart (toDec 1234567) 6 CHR ''0'' = ''1234567''"
    by (simp_all add: toDec.simps digitChar_def padStart_def replicate_numeral)
  note t = uniq_id_display_form [where n = 123, unfolded d]
  note t' = uniq_id_display_form [where n = 1234567, unfolded d]
  have a: "matchUniqId ''UNIQ-000123'' = Some ''000123''" "Number ''000123'' = SafeInteger 123"
    using t by simp_all
  have b: "matchUniqId ''UNIQ-1234567'' = Some ''1234567''" "Number ''1234567'' = SafeInteger 1234567"
    using t' by simp_all
  show ?thesis
    using a b ex_registration_uniq_id [of exampleSalt exampleTime] by simp
qed

text \<open>
  C9, as the claim states it, fails: the registration of the example, anchored under id
  1, returns the id as \<^verbatim>\<open>UNIQ-000001\<close>, not \<^verbatim>\<open>ID-000001\<close>; and a login that presents
  the same package with \<^verbatim>\<open>ID-000001\<close> is rejected, the id being unreadable.
\<close>

theorem uniq_id_display_form_counterexample:
  "map_option (\<lambda>p. getProp p ''uniq_id'')
     (packageOf (exampleRegistration (exampleLedger 145250) exampleSalt exampleTime
                   (Some exampleWallet) exampleTx)) = Some (JStr ''UNIQ-000001'')
   \<and> JStr ''UNIQ-000001'' \<noteq> JStr ''ID-000001''
   \<and> matchUniqId ''ID-000001'' = None
   \<and> loginHandler (exampleServer (exampleLedger 145250) exampleSalt exampleTime (Some exampleWallet) exampleTx)
       (Some ((examplePackage exampleSalt exampleTime (Some exampleWallet))(''uniq_id'' \<mapsto> JStr ''ID-000001''))) =
     LoginError 400 ''Invalid or missing uniq_id (anchored id required for on-chain verification).''"
proof -
  let ?env = "exampleServer (exampleLedger 145250) exampleSalt exampleTime (Some exampleWallet) exampleTx"
  let ?pkg = "(examplePackage exampleSalt exampleTime (Some exampleWallet))(''uniq_id'' \<mapsto> JStr ''ID-000001'')"
  have a: "map_option (\<lambda>p. getProp p ''uniq_id'')
     (packageOf (exampleRegistration (exampleLedger 145250) exampleSalt exampleTime
                   (Some exampleWallet) exampleTx)) = Some (JStr ''UNIQ-000001'')"
    by (simp add: ex_registration_uniq_id packageOf_def getProp_fun_upd)
  have m0: "matchUniqId ''ID-000001'' = None"
    by (simp add: matchUniqId_def startsWith_def)
  have p: "loginHandler ?env (Some ?pkg) = loginVerify ?env ?pkg"
    by (rule loginHandler_present) (simp add: required_def getProp_fun_upd ex_package_fields)
  have m: "matchUniqId (strOrEmpty (getProp ?pkg ''uniq_id'')) = None"
    by (simp add: getProp_fun_upd strOrEmpty_def m0)
  have l: "loginHandler ?env (Some ?pkg) =
      LoginError 400 ''Invalid or missing uniq_id (anchored id required for on-chain verification).''"
    unfolding p loginVerify_def ex_signatureCheck m by simp
  show ?thesis
    using a m0 l by simp
qed

end
